theory Spec2Isabelle
  imports Main "HOL-Library.Word"
begin

section \<open>Work item attachment tools of the Azure DevOps MCP server\<close>

text \<open>
  A shallow embedding of \<^verbatim>\<open>features/work_items/tools/attachments.py\<close>.
  The module has three implementation functions (download, upload, attach) and two tool
  functions that wrap them and turn every exception into a result text. The Azure DevOps
  client and the filesystem are outside the module; both are explicit here: the client as
  a record of the four calls the module makes, the filesystem as a state that the
  functions take and return.
\<close>

subsection \<open>Python strings\<close>

text \<open>
  A \<^verbatim>\<open>str\<close> is a \<^typ>\<open>string\<close>: a list of characters. The module only
  searches for and cuts at the ASCII characters slash, backslash and colon, so one list
  element stands for one Python character.
\<close>

definition backslash :: char where
  "backslash = CHR 0x5C"

text \<open>\<^verbatim>\<open>s.startswith(p)\<close>\<close>

fun startswith :: "string \<Rightarrow> string \<Rightarrow> bool" where
  "startswith s [] = True"
| "startswith [] (p # ps) = False"
| "startswith (c # cs) (p # ps) = (c = p \<and> startswith cs ps)"

text \<open>\<^verbatim>\<open>s.endswith(p)\<close>\<close>

definition endswith :: "string \<Rightarrow> string \<Rightarrow> bool" where
  "endswith s p = startswith (rev s) (rev p)"

text \<open>\<^verbatim>\<open>sub in s\<close>: \<open>sub\<close> occurs in \<open>s\<close> at some position.\<close>

fun str_contains :: "string \<Rightarrow> string \<Rightarrow> bool" where
  "str_contains sub [] = (sub = [])"
| "str_contains sub (c # cs) = (startswith (c # cs) sub \<or> str_contains sub cs)"

text \<open>\<^verbatim>\<open>s.split(sep)\<close> for a separator of one character; the result is never empty.\<close>

fun str_split :: "char \<Rightarrow> string \<Rightarrow> string list" where
  "str_split sep [] = [[]]"
| "str_split sep (c # cs) =
     (if c = sep then [] # str_split sep cs
      else (case str_split sep cs of
              [] \<Rightarrow> [[c]]
            | w # ws \<Rightarrow> (c # w) # ws))"

text \<open>\<^verbatim>\<open>s.replace(old, new)\<close> for \<open>old\<close> and \<open>new\<close> of one character each.\<close>

definition str_replace :: "char \<Rightarrow> char \<Rightarrow> string \<Rightarrow> string" where
  "str_replace old new s = map (\<lambda>c. if c = old then new else c) s"

text \<open>\<^verbatim>\<open>sep.join(parts)\<close>\<close>

fun str_join :: "string \<Rightarrow> string list \<Rightarrow> string" where
  "str_join sep [] = []"
| "str_join sep [p] = p"
| "str_join sep (p # q # ps) = p @ sep @ str_join sep (q # ps)"

text \<open>\<^verbatim>\<open>str(n)\<close> for an \<^verbatim>\<open>int\<close>: decimal digits, with a minus sign below zero.\<close>

fun str_nat :: "nat \<Rightarrow> string" where
  "str_nat n =
     (if n < 10 then [''0123456789'' ! n]
      else str_nat (n div 10) @ [''0123456789'' ! (n mod 10)])"

declare str_nat.simps [simp del]

definition str_int :: "int \<Rightarrow> string" where
  "str_int i = (if i < 0 then CHR ''-'' # str_nat (nat (- i)) else str_nat (nat i))"

subsection \<open>\<^verbatim>\<open>os.path\<close> (posixpath)\<close>

text \<open>\<^verbatim>\<open>os.path.basename(p)\<close>: what follows the last slash.\<close>

definition os_path_basename :: "string \<Rightarrow> string" where
  "os_path_basename p = rev (takeWhile (\<lambda>c. c \<noteq> CHR ''/'') (rev p))"

text \<open>
  \<^verbatim>\<open>os.path.dirname(p)\<close>: what precedes the basename, without its trailing slashes
  unless it consists of slashes only.
\<close>

definition os_path_dirname :: "string \<Rightarrow> string" where
  "os_path_dirname p =
     (let head = rev (dropWhile (\<lambda>c. c \<noteq> CHR ''/'') (rev p))
      in if head \<noteq> [] \<and> head \<noteq> replicate (length head) (CHR ''/'')
         then rev (dropWhile (\<lambda>c. c = CHR ''/'') (rev head))
         else head)"

text \<open>\<^verbatim>\<open>os.path.join(a, b)\<close> with two arguments.\<close>

definition os_path_join :: "string \<Rightarrow> string \<Rightarrow> string" where
  "os_path_join a b =
     (if startswith b ''/'' then b
      else if a = [] \<or> endswith a ''/'' then a @ b
      else a @ ''/'' @ b)"

text \<open>
  \<^verbatim>\<open>os.path.normpath(p)\<close>: the loop over the components keeps a stack;
  \<open>initial_slashes\<close> is 0, 1 or 2 as in posixpath.
\<close>

fun normpath_comps :: "nat \<Rightarrow> string list \<Rightarrow> string list \<Rightarrow> string list" where
  "normpath_comps initial_slashes new_comps [] = new_comps"
| "normpath_comps initial_slashes new_comps (cmpt # cmpts) =
     (if cmpt = [] \<or> cmpt = ''.'' then normpath_comps initial_slashes new_comps cmpts
      else if cmpt \<noteq> ''..'' \<or> (initial_slashes = 0 \<and> new_comps = [])
              \<or> (new_comps \<noteq> [] \<and> last new_comps = ''..'')
           then normpath_comps initial_slashes (new_comps @ [cmpt]) cmpts
      else if new_comps \<noteq> [] then normpath_comps initial_slashes (butlast new_comps) cmpts
      else normpath_comps initial_slashes new_comps cmpts)"

definition os_path_normpath :: "string \<Rightarrow> string" where
  "os_path_normpath p =
     (if p = [] then ''.''
      else
        let initial_slashes =
              (if startswith p ''/''
               then (if startswith p ''//'' \<and> \<not> startswith p ''///'' then 2 else 1)
               else (0::nat));
            path = replicate initial_slashes (CHR ''/'')
                   @ str_join ''/'' (normpath_comps initial_slashes [] (str_split (CHR ''/'') p))
        in if path = [] then ''.'' else path)"

text \<open>\<^verbatim>\<open>os.path.abspath(p)\<close>, with the working directory of the process given.\<close>

definition os_path_abspath :: "string \<Rightarrow> string \<Rightarrow> string" where
  "os_path_abspath cwd p =
     os_path_normpath (if startswith p ''/'' then p else os_path_join cwd p)"

subsection \<open>Exceptions\<close>

text \<open>
  The module distinguishes two kinds of exception: \<^verbatim>\<open>AzureDevOpsClientError\<close>
  (imported from \<^verbatim>\<open>work_items.common\<close>, a subclass of \<^verbatim>\<open>Exception\<close>) and
  every other \<^verbatim>\<open>Exception\<close>. Each carries its message, which is what
  \<^verbatim>\<open>str(e)\<close> returns.
\<close>

datatype exn = AzureDevOpsClientError string | OtherException string

fun str_exn :: "exn \<Rightarrow> string" where
  "str_exn (AzureDevOpsClientError msg) = msg"
| "str_exn (OtherException msg) = msg"

subsection \<open>The work item tracking client\<close>

type_synonym byte = "8 word"
type_synonym bytes = "byte list"

text \<open>
  The values of a relation's \<^verbatim>\<open>attributes\<close> dictionary are declared as objects;
  the module reads \<^verbatim>\<open>name\<close> and \<^verbatim>\<open>contentType\<close>. A string and an integer
  stand for a value that \<^verbatim>\<open>os.path.basename\<close> accepts and one that it rejects.
\<close>

datatype attr_value = AStr string | AInt int

fun str_attr :: "attr_value \<Rightarrow> string" where
  "str_attr (AStr s) = s"
| "str_attr (AInt i) = str_int i"

record work_item_relation =
  rel :: string
  url :: string
  attributes :: "string \<rightharpoonup> attr_value"

text \<open>
  A work item as the module reads it: \<^verbatim>\<open>rev\<close> and \<^verbatim>\<open>relations\<close>, the latter
  \<^verbatim>\<open>None\<close> when the work item has no relation.
\<close>

record work_item =
  item_rev :: int
  relations :: "work_item_relation list option"

record attachment_reference =
  ref_id :: string
  ref_url :: string

text \<open>
  What \<^verbatim>\<open>create_attachment\<close> receives as \<^verbatim>\<open>upload_stream\<close>: the open file
  (its path and content) at the first attempt, an \<^verbatim>\<open>io.BytesIO\<close> of the content at the
  second.
\<close>

datatype upload_stream = FileObject string bytes | BytesIO bytes

record json_patch_operation =
  op :: string
  path :: string
  patch_value :: work_item_relation

text \<open>
  The four calls the module makes on the client. Each either raises or returns.
  \<^verbatim>\<open>get_work_item(id, expand)\<close> may return \<^verbatim>\<open>None\<close>, which the module tests for.
  \<^verbatim>\<open>get_attachment_content(id)\<close> returns a generator: the chunks it yields, and the
  exception that ends the iteration if one does.
\<close>

record client =
  get_work_item :: "int \<Rightarrow> string option \<Rightarrow> exn + work_item option"
  get_attachment_content :: "string \<Rightarrow> exn + (bytes list \<times> exn option)"
  create_attachment :: "upload_stream \<Rightarrow> string \<Rightarrow> string \<Rightarrow> exn + attachment_reference"
  update_work_item :: "json_patch_operation list \<Rightarrow> int \<Rightarrow> bool \<Rightarrow> exn + work_item"

text \<open>
  What the module takes from outside besides the client class:
  \<^verbatim>\<open>get_work_item_client()\<close> of \<^verbatim>\<open>work_items.common\<close>, which raises or returns
  a client, and the table behind \<^verbatim>\<open>mimetypes.guess_type\<close>.
\<close>

record platform =
  get_work_item_client :: "exn + client"
  mimetypes_guess_type :: "string \<Rightarrow> string option"

subsection \<open>The filesystem\<close>

text \<open>
  \<open>nodes fs p\<close> is what the path string \<open>p\<close> names: a regular file with its content,
  a directory, or nothing. Path strings are looked up as the program builds them.
  \<open>io_error fs p\<close> is the message of the \<^verbatim>\<open>OSError\<close> that the system raises when
  the program opens or creates \<open>p\<close> for a reason other than the kind of node there
  (permissions, a read-only or full device); \<open>dir_size\<close> is the size that
  \<^verbatim>\<open>stat\<close> reports for a directory; \<open>cwd\<close> is the working directory.
\<close>

datatype node = File bytes | Dir

record filesystem =
  nodes :: "string \<Rightarrow> node option"
  io_error :: "string \<Rightarrow> string option"
  dir_size :: nat
  cwd :: string

text \<open>
  The text of an \<^verbatim>\<open>OSError\<close> ends with the path in single quotes (its
  \<^verbatim>\<open>repr\<close>, written here for a path without quotes and backslashes).
\<close>

definition os_error :: "string \<Rightarrow> string \<Rightarrow> exn" where
  "os_error what p = OtherException (what @ '': '' @ [CHR 0x27] @ p @ [CHR 0x27])"

text \<open>\<^verbatim>\<open>os.path.exists(p)\<close>\<close>

definition os_path_exists :: "filesystem \<Rightarrow> string \<Rightarrow> bool" where
  "os_path_exists fs p = (nodes fs p \<noteq> None)"

text \<open>
  \<^verbatim>\<open>os.makedirs(p, exist_ok=True)\<close>: nothing to do for a directory that exists;
  \<^verbatim>\<open>FileExistsError\<close> when \<open>p\<close> is a regular file.
\<close>

definition os_makedirs :: "string \<Rightarrow> filesystem \<Rightarrow> exn + filesystem" where
  "os_makedirs p fs =
     (case io_error fs p of
        Some msg \<Rightarrow> Inl (OtherException msg)
      | None \<Rightarrow>
         (case nodes fs p of
            Some Dir \<Rightarrow> Inr fs
          | Some (File data) \<Rightarrow> Inl (os_error ''[Errno 17] File exists'' p)
          | None \<Rightarrow> Inr (fs\<lparr>nodes := (nodes fs)(p \<mapsto> Dir)\<rparr>)))"

text \<open>
  \<^verbatim>\<open>open(p, 'wb')\<close>: creates the file or truncates it. It raises when \<open>p\<close> names a
  directory (which a path whose last component is empty, \<^verbatim>\<open>.\<close> or \<^verbatim>\<open>..\<close>
  always does) and when the directory of \<open>p\<close> does not exist.
\<close>

definition open_wb :: "string \<Rightarrow> filesystem \<Rightarrow> exn + filesystem" where
  "open_wb p fs =
     (case io_error fs p of
        Some msg \<Rightarrow> Inl (OtherException msg)
      | None \<Rightarrow>
         if os_path_basename p \<in> {[], ''.'', ''..''} \<or> nodes fs p = Some Dir
         then Inl (os_error ''[Errno 21] Is a directory'' p)
         else if nodes fs (os_path_dirname p) \<noteq> Some Dir
         then Inl (os_error ''[Errno 2] No such file or directory'' p)
         else Inr (fs\<lparr>nodes := (nodes fs)(p \<mapsto> File [])\<rparr>))"

text \<open>\<^verbatim>\<open>open(p, 'rb')\<close> and reading the file to its end.\<close>

definition open_rb :: "string \<Rightarrow> filesystem \<Rightarrow> exn + bytes" where
  "open_rb p fs =
     (case io_error fs p of
        Some msg \<Rightarrow> Inl (OtherException msg)
      | None \<Rightarrow>
         (case nodes fs p of
            Some (File data) \<Rightarrow> Inr data
          | Some Dir \<Rightarrow> Inl (os_error ''[Errno 21] Is a directory'' p)
          | None \<Rightarrow> Inl (os_error ''[Errno 2] No such file or directory'' p)))"

text \<open>\<^verbatim>\<open>os.path.getsize(p)\<close>\<close>

definition os_path_getsize :: "string \<Rightarrow> filesystem \<Rightarrow> exn + nat" where
  "os_path_getsize p fs =
     (case nodes fs p of
        Some (File data) \<Rightarrow> Inr (length data)
      | Some Dir \<Rightarrow> Inr (dir_size fs)
      | None \<Rightarrow> Inl (os_error ''[Errno 2] No such file or directory'' p))"

subsection \<open>Looking an attachment up on a work item\<close>

record attachment_info =
  info_name :: string
  info_url :: string
  info_attributes :: "string \<rightharpoonup> attr_value"

text \<open>
  The \<^verbatim>\<open>return\<close> statement inside the loop over the relations: the dictionary
  built from the relation. \<^verbatim>\<open>attributes.get("name", "")\<close> is the empty string for a
  missing key, and \<^verbatim>\<open>os.path.basename\<close> raises \<^verbatim>\<open>TypeError\<close> for a name that
  is no string.
\<close>

definition attachment_info_of :: "work_item_relation \<Rightarrow> exn + attachment_info" where
  "attachment_info_of relation =
     (case (case attributes relation ''name'' of None \<Rightarrow> AStr [] | Some v \<Rightarrow> v) of
        AStr name \<Rightarrow>
          Inr \<lparr>info_name = os_path_basename name,
               info_url = url relation,
               info_attributes = attributes relation\<rparr>
      | AInt i \<Rightarrow>
          Inl (OtherException ''expected str, bytes or os.PathLike object, not int''))"

text \<open>
  The loop over \<^verbatim>\<open>work_item.relations\<close>: it returns at the first relation whose
  \<^verbatim>\<open>rel\<close> is \<^verbatim>\<open>AttachedFile\<close> and whose \<^verbatim>\<open>url\<close> contains the attachment id.
  \<open>None\<close> means that the loop ended without returning.
\<close>

fun find_attachment_relation ::
  "string \<Rightarrow> work_item_relation list \<Rightarrow> (exn + attachment_info) option" where
  "find_attachment_relation attachment_id [] = None"
| "find_attachment_relation attachment_id (relation # rest) =
     (if rel relation = ''AttachedFile'' \<and> str_contains attachment_id (url relation)
      then Some (attachment_info_of relation)
      else find_attachment_relation attachment_id rest)"

text \<open>The body of the \<^verbatim>\<open>try\<close> block of \<^verbatim>\<open>_get_attachment_info_from_work_item\<close>.\<close>

definition get_attachment_info_body :: "int \<Rightarrow> string \<Rightarrow> client \<Rightarrow> exn + attachment_info" where
  "get_attachment_info_body work_item_id attachment_id wit_client =
     (case get_work_item wit_client work_item_id (Some ''relations'') of
        Inl e \<Rightarrow> Inl e
      | Inr work_item \<Rightarrow>
         (case (case work_item of None \<Rightarrow> None | Some wi \<Rightarrow> relations wi) of
            None \<Rightarrow>
              Inl (AzureDevOpsClientError
                     (''No attachments found in work item '' @ str_int work_item_id))
          | Some rels \<Rightarrow>
              if rels = []
              then Inl (AzureDevOpsClientError
                          (''No attachments found in work item '' @ str_int work_item_id))
              else (case find_attachment_relation attachment_id rels of
                      Some found \<Rightarrow> found
                    | None \<Rightarrow>
                        Inl (AzureDevOpsClientError
                               (''Attachment '' @ attachment_id @ '' not found in work item ''
                                @ str_int work_item_id)))))"

text \<open>
  \<^verbatim>\<open>_get_attachment_info_from_work_item\<close>: every exception of the body, its own
  \<^verbatim>\<open>AzureDevOpsClientError\<close> included, is caught and raised again with a prefix.
\<close>

definition get_attachment_info_from_work_item ::
  "int \<Rightarrow> string \<Rightarrow> client \<Rightarrow> exn + attachment_info" where
  "get_attachment_info_from_work_item work_item_id attachment_id wit_client =
     (case get_attachment_info_body work_item_id attachment_id wit_client of
        Inl e \<Rightarrow>
          Inl (AzureDevOpsClientError (''Error getting attachment information: '' @ str_exn e))
      | Inr info \<Rightarrow> Inr info)"

subsection \<open>Download\<close>

text \<open>
  The test that the module applies to a path to decide that it is a Windows path: it
  contains a backslash, or it contains a colon and exactly one character precedes the
  first colon.
\<close>

definition is_windows_path :: "string \<Rightarrow> bool" where
  "is_windows_path p =
     (str_contains [backslash] p
      \<or> (str_contains '':'' p \<and> length (hd (str_split (CHR '':'') p)) = 1))"

text \<open>\<^verbatim>\<open>p.replace("\\", "/").split("/")[-1]\<close>\<close>

definition windows_filename :: "string \<Rightarrow> string" where
  "windows_filename p = last (str_split (CHR ''/'') (str_replace backslash (CHR ''/'') p))"

text \<open>
  The file name that \<^verbatim>\<open>_download_attachment_impl\<close> takes from
  \<^verbatim>\<open>output_path\<close>: the two branches of its \<^verbatim>\<open>if\<close> statement.
\<close>

definition download_filename :: "string \<Rightarrow> string" where
  "download_filename output_path =
     (if is_windows_path output_path then windows_filename output_path
      else os_path_basename output_path)"

record download_result =
  dl_filename :: string
  dl_size :: nat
  dl_content_type :: attr_value
  dl_saved_to :: string

text \<open>
  The loop over the generator: each chunk is appended to the open file and its length
  added to \<^verbatim>\<open>total_size\<close>. The state is the content written so far and the total.
\<close>

fun write_chunks :: "bytes list \<Rightarrow> bytes \<times> nat \<Rightarrow> bytes \<times> nat" where
  "write_chunks [] (written, total_size) = (written, total_size)"
| "write_chunks (chunk # chunks) (written, total_size) =
     write_chunks chunks (written @ chunk, total_size + length chunk)"

text \<open>
  The body of the \<^verbatim>\<open>try\<close> block of \<^verbatim>\<open>_download_attachment_impl\<close>. The file is
  closed when the \<^verbatim>\<open>with\<close> block is left, also by an exception of the generator, so the
  chunks written until then stay in the file.
\<close>

definition download_attachment_body ::
  "int \<Rightarrow> string \<Rightarrow> string \<Rightarrow> client \<Rightarrow> filesystem \<Rightarrow> (exn + download_result) \<times> filesystem" where
  "download_attachment_body work_item_id attachment_id output_path wit_client fs =
     (case get_attachment_info_from_work_item work_item_id attachment_id wit_client of
        Inl e \<Rightarrow> (Inl e, fs)
      | Inr attachment_info \<Rightarrow>
     (case get_attachment_content wit_client attachment_id of
        Inl e \<Rightarrow> (Inl e, fs)
      | Inr (chunks, raised) \<Rightarrow>
     (let downloads_dir = ''/downloads'';
          filename = download_filename output_path;
          final_path = os_path_join downloads_dir filename
      in
     (case os_makedirs (os_path_dirname (os_path_abspath (cwd fs) final_path)) fs of
        Inl e \<Rightarrow> (Inl e, fs)
      | Inr fs1 \<Rightarrow>
     (case open_wb final_path fs1 of
        Inl e \<Rightarrow> (Inl e, fs1)
      | Inr fs2 \<Rightarrow>
     (let (written, total_size) = write_chunks chunks ([], 0);
          fs3 = fs2\<lparr>nodes := (nodes fs2)(final_path \<mapsto> File written)\<rparr>
      in
     (case raised of
        Some e \<Rightarrow> (Inl e, fs3)
      | None \<Rightarrow>
          (Inr \<lparr>dl_filename = info_name attachment_info,
                dl_size = total_size,
                dl_content_type =
                  (case info_attributes attachment_info ''contentType'' of
                     None \<Rightarrow> AStr ''application/octet-stream''
                   | Some v \<Rightarrow> v),
                dl_saved_to = final_path\<rparr>, fs3))))))))"

text \<open>\<^verbatim>\<open>_download_attachment_impl\<close>\<close>

definition download_attachment_impl ::
  "int \<Rightarrow> string \<Rightarrow> string \<Rightarrow> client \<Rightarrow> filesystem \<Rightarrow> (exn + download_result) \<times> filesystem" where
  "download_attachment_impl work_item_id attachment_id output_path wit_client fs =
     (case download_attachment_body work_item_id attachment_id output_path wit_client fs of
        (Inl e, fs') \<Rightarrow>
          (Inl (AzureDevOpsClientError
                  (''Error downloading attachment '' @ attachment_id @ '' from work item ''
                   @ str_int work_item_id @ '': '' @ str_exn e)), fs')
      | (Inr result, fs') \<Rightarrow> (Inr result, fs'))"

definition newline :: string where
  "newline = [CHR 0x0A]"

text \<open>
  The body of the \<^verbatim>\<open>try\<close> block of the tool
  \<^verbatim>\<open>download_work_item_attachment\<close>: the client, the download and the response.
\<close>

definition download_and_format ::
  "platform \<Rightarrow> int \<Rightarrow> string \<Rightarrow> string \<Rightarrow> filesystem \<Rightarrow> (exn + string) \<times> filesystem" where
  "download_and_format pf work_item_id attachment_id output_path fs =
     (case get_work_item_client pf of
        Inl e \<Rightarrow> (Inl e, fs)
      | Inr wit_client \<Rightarrow>
         (case download_attachment_impl work_item_id attachment_id output_path wit_client fs of
            (Inl e, fs') \<Rightarrow> (Inl e, fs')
          | (Inr result, fs') \<Rightarrow>
              (Inr (str_join newline
                      [''# Attachment Downloaded Successfully'',
                       ''Filename: '' @ dl_filename result,
                       ''Size: '' @ str_nat (dl_size result) @ '' bytes'',
                       ''Content Type: '' @ str_attr (dl_content_type result),
                       ''Saved to: '' @ dl_saved_to result,
                       [],
                       ''The file is now available for viewing or processing.'']), fs')))"

text \<open>
  \<^verbatim>\<open>download_work_item_attachment\<close>: the two \<^verbatim>\<open>except\<close> clauses. The result
  is the text that the tool returns and the filesystem after the call.
\<close>

definition download_work_item_attachment ::
  "platform \<Rightarrow> int \<Rightarrow> string \<Rightarrow> string \<Rightarrow> filesystem \<Rightarrow> string \<times> filesystem" where
  "download_work_item_attachment pf work_item_id attachment_id output_path fs =
     (case download_and_format pf work_item_id attachment_id output_path fs of
        (Inl (AzureDevOpsClientError msg), fs') \<Rightarrow> (''Error: '' @ msg, fs')
      | (Inl (OtherException msg), fs') \<Rightarrow> (''Error downloading attachment: '' @ msg, fs')
      | (Inr response, fs') \<Rightarrow> (response, fs'))"

subsection \<open>Upload\<close>

text \<open>
  The loop over \<^verbatim>\<open>possible_locations\<close>: \<^verbatim>\<open>container_path\<close> is \<^verbatim>\<open>None\<close>
  before it, and the first location that exists ends it.
\<close>

fun first_existing :: "filesystem \<Rightarrow> string list \<Rightarrow> string option" where
  "first_existing fs [] = None"
| "first_existing fs (loc # locs) =
     (if os_path_exists fs loc then Some loc else first_existing fs locs)"

definition file_not_found_in_container :: "string \<Rightarrow> exn" where
  "file_not_found_in_container file_path =
     AzureDevOpsClientError
       (''File not found: '' @ file_path @ ''. Please ensure the file is available ''
        @ ''in the container in one of these directories: /downloads, /uploads, or /tmp.'')"

text \<open>
  The loop followed by \<^verbatim>\<open>if not container_path: raise\<close>, which the module writes
  three times; \<^verbatim>\<open>not container_path\<close> holds for \<^verbatim>\<open>None\<close> and for the empty
  string.
\<close>

definition probe_locations :: "filesystem \<Rightarrow> string \<Rightarrow> string list \<Rightarrow> exn + string" where
  "probe_locations fs file_path possible_locations =
     (case first_existing fs possible_locations of
        None \<Rightarrow> Inl (file_not_found_in_container file_path)
      | Some container_path \<Rightarrow>
          if container_path = [] then Inl (file_not_found_in_container file_path)
          else Inr container_path)"

text \<open>
  The first part of \<^verbatim>\<open>_upload_attachment_impl\<close>, from
  \<^verbatim>\<open>container_path = file_path\<close> to the end of the \<^verbatim>\<open>if\<close> statement: the path
  of the file in the container, or the exception raised.
\<close>

definition resolve_container_path :: "filesystem \<Rightarrow> string \<Rightarrow> exn + string" where
  "resolve_container_path fs file_path =
     (if is_windows_path file_path then
        (let filename = windows_filename file_path
         in probe_locations fs file_path
              [os_path_join ''/downloads'' filename,
               os_path_join ''/uploads'' filename,
               os_path_join ''/tmp'' filename])
      else if startswith file_path ''/'' then
        (if \<not> os_path_exists fs file_path then
           (if \<not> (startswith file_path ''/downloads/'' \<or> startswith file_path ''/uploads/''
                   \<or> startswith file_path ''/tmp/'') then
              (let filename = os_path_basename file_path
               in probe_locations fs file_path
                    [os_path_join ''/downloads'' filename,
                     os_path_join ''/uploads'' filename,
                     os_path_join ''/tmp'' filename])
            else Inl (AzureDevOpsClientError (''File not found: '' @ file_path)))
         else Inr file_path)
      else
        probe_locations fs file_path
          [os_path_join ''/downloads'' file_path,
           os_path_join ''/uploads'' file_path,
           os_path_join ''/tmp'' file_path,
           file_path])"

record upload_result =
  up_id :: string
  up_url :: string
  up_name :: string
  up_size :: nat
  up_content_type :: string
  up_original_path :: string
  up_container_path :: string
  up_comment :: "string option"

text \<open>
  The two attempts at \<^verbatim>\<open>create_attachment\<close>: with the open file, and after any
  exception of that attempt with the content of the file in memory. An exception of the
  second attempt leaves the function.
\<close>

definition upload_stream_attempts ::
  "client \<Rightarrow> filesystem \<Rightarrow> string \<Rightarrow> string \<Rightarrow> exn + attachment_reference" where
  "upload_stream_attempts wit_client fs container_path file_name =
     (case (case open_rb container_path fs of
              Inl e \<Rightarrow> Inl e
            | Inr data \<Rightarrow>
                create_attachment wit_client (FileObject container_path data) file_name ''simple'') of
        Inr attachment \<Rightarrow> Inr attachment
      | Inl file_error \<Rightarrow>
         (case open_rb container_path fs of
            Inl e \<Rightarrow> Inl e
          | Inr file_content \<Rightarrow>
              create_attachment wit_client (BytesIO file_content) file_name ''simple''))"

text \<open>
  The body of the \<^verbatim>\<open>try\<close> block of \<^verbatim>\<open>_upload_attachment_impl\<close>;
  \<^verbatim>\<open>not file_name\<close> holds for \<^verbatim>\<open>None\<close> and for the empty string.
\<close>

definition upload_attachment_body ::
  "(string \<Rightarrow> string option) \<Rightarrow> string \<Rightarrow> string option \<Rightarrow> string option \<Rightarrow> client
     \<Rightarrow> filesystem \<Rightarrow> exn + upload_result" where
  "upload_attachment_body guess_type file_path file_name comment wit_client fs =
     (case resolve_container_path fs file_path of
        Inl e \<Rightarrow> Inl e
      | Inr container_path \<Rightarrow>
     (let file_name' = (case file_name of
                          None \<Rightarrow> os_path_basename file_path
                        | Some n \<Rightarrow> if n = [] then os_path_basename file_path else n);
          content_type = (case guess_type file_name' of
                            None \<Rightarrow> ''application/octet-stream''
                          | Some t \<Rightarrow> if t = [] then ''application/octet-stream'' else t)
      in
     (case upload_stream_attempts wit_client fs container_path file_name' of
        Inl e \<Rightarrow> Inl e
      | Inr attachment \<Rightarrow>
     (case os_path_getsize container_path fs of
        Inl e \<Rightarrow> Inl e
      | Inr n \<Rightarrow>
          Inr \<lparr>up_id = ref_id attachment,
               up_url = ref_url attachment,
               up_name = file_name',
               up_size = n,
               up_content_type = content_type,
               up_original_path = file_path,
               up_container_path = container_path,
               up_comment = comment\<rparr>))))"

text \<open>\<^verbatim>\<open>_upload_attachment_impl\<close>\<close>

definition upload_attachment_impl ::
  "(string \<Rightarrow> string option) \<Rightarrow> string \<Rightarrow> string option \<Rightarrow> string option \<Rightarrow> client
     \<Rightarrow> filesystem \<Rightarrow> exn + upload_result" where
  "upload_attachment_impl guess_type file_path file_name comment wit_client fs =
     (case upload_attachment_body guess_type file_path file_name comment wit_client fs of
        Inl e \<Rightarrow>
          Inl (AzureDevOpsClientError
                 (''Error uploading attachment '' @ file_path @ '': '' @ str_exn e))
      | Inr result \<Rightarrow> Inr result)"

subsection \<open>Attaching an uploaded file to a work item\<close>

record attach_result =
  at_work_item_id :: int
  at_attachment_id :: string
  at_attachment_name :: string
  at_comment :: string
  at_updated_work_item_rev :: int

text \<open>\<^verbatim>\<open>comment if comment else ""\<close>\<close>

definition comment_or_empty :: "string option \<Rightarrow> string" where
  "comment_or_empty comment = (case comment of None \<Rightarrow> [] | Some c \<Rightarrow> c)"

text \<open>The JSON patch document that \<^verbatim>\<open>_attach_file_to_work_item_impl\<close> builds.\<close>

definition attach_patch_document ::
  "string \<Rightarrow> string \<Rightarrow> string option \<Rightarrow> json_patch_operation list" where
  "attach_patch_document attachment_id attachment_name comment =
     [\<lparr>op = ''add'',
       path = ''/relations/-'',
       patch_value =
         \<lparr>rel = ''AttachedFile'',
          url = attachment_id,
          attributes = [''name'' \<mapsto> AStr attachment_name,
                        ''comment'' \<mapsto> AStr (comment_or_empty comment)]\<rparr>\<rparr>]"

text \<open>\<^verbatim>\<open>_attach_file_to_work_item_impl\<close>\<close>

definition attach_file_to_work_item_impl ::
  "int \<Rightarrow> string \<Rightarrow> string \<Rightarrow> string option \<Rightarrow> client \<Rightarrow> exn + attach_result" where
  "attach_file_to_work_item_impl work_item_id attachment_id attachment_name comment wit_client =
     (case
        (case get_work_item wit_client work_item_id None of
           Inl e \<Rightarrow> Inl e
         | Inr None \<Rightarrow>
             Inl (AzureDevOpsClientError
                    (''Work item '' @ str_int work_item_id @ '' not found''))
         | Inr (Some work_item) \<Rightarrow>
            (case update_work_item wit_client
                    (attach_patch_document attachment_id attachment_name comment)
                    work_item_id False of
               Inl e \<Rightarrow> Inl e
             | Inr updated_work_item \<Rightarrow>
                 Inr \<lparr>at_work_item_id = work_item_id,
                      at_attachment_id = attachment_id,
                      at_attachment_name = attachment_name,
                      at_comment = comment_or_empty comment,
                      at_updated_work_item_rev = item_rev updated_work_item\<rparr>)) of
        Inl e \<Rightarrow>
          Inl (AzureDevOpsClientError
                 (''Error attaching file to work item '' @ str_int work_item_id @ '': ''
                  @ str_exn e))
      | Inr result \<Rightarrow> Inr result)"

subsection \<open>The upload tool\<close>

text \<open>
  The body of the \<^verbatim>\<open>try\<close> block of \<^verbatim>\<open>upload_attachment_to_work_item\<close>: the
  upload, the attach step on the uploaded attachment's url and name, and the response.
  The calls of \<^verbatim>\<open>logging\<close> append to the log file and are left out.
\<close>

definition upload_and_attach ::
  "platform \<Rightarrow> int \<Rightarrow> string \<Rightarrow> string option \<Rightarrow> string option \<Rightarrow> filesystem
     \<Rightarrow> exn + string" where
  "upload_and_attach pf work_item_id file_path file_name comment fs =
     (case get_work_item_client pf of
        Inl e \<Rightarrow> Inl e
      | Inr wit_client \<Rightarrow>
     (case upload_attachment_impl (mimetypes_guess_type pf) file_path file_name comment
             wit_client fs of
        Inl e \<Rightarrow> Inl e
      | Inr upload_result \<Rightarrow>
     (case attach_file_to_work_item_impl work_item_id (up_url upload_result)
             (up_name upload_result) comment wit_client of
        Inl e \<Rightarrow> Inl e
      | Inr attach_result \<Rightarrow>
          Inr (str_join newline
                 ([''# File Attached Successfully to Work Item '' @ str_int work_item_id,
                   ''Filename: '' @ up_name upload_result,
                   ''Size: '' @ str_nat (up_size upload_result) @ '' bytes'',
                   ''Content Type: '' @ up_content_type upload_result,
                   ''File location in container: '' @ up_container_path upload_result]
                  @ (if comment_or_empty comment \<noteq> []
                     then [''Comment: '' @ comment_or_empty comment] else [])
                  @ [[], ''The file has been uploaded and attached to the work item.''])))))"

text \<open>\<^verbatim>\<open>upload_attachment_to_work_item\<close>: the two \<^verbatim>\<open>except\<close> clauses.\<close>

definition upload_attachment_to_work_item ::
  "platform \<Rightarrow> int \<Rightarrow> string \<Rightarrow> string option \<Rightarrow> string option \<Rightarrow> filesystem \<Rightarrow> string" where
  "upload_attachment_to_work_item pf work_item_id file_path file_name comment fs =
     (case upload_and_attach pf work_item_id file_path file_name comment fs of
        Inl (AzureDevOpsClientError msg) \<Rightarrow> ''Error: '' @ msg
      | Inl (OtherException msg) \<Rightarrow> ''Error uploading attachment: '' @ msg
      | Inr response \<Rightarrow> response)"

subsection \<open>The file locator as the specification describes it\<close>

text \<open>
  The specification's words for the upload file locator: a fixed ordered list of
  candidate directories is probed for existence, the first hit is returned, and a
  not-found error is raised otherwise. \<open>spec_locate fs file_path name\<close> probes the
  directories for \<open>name\<close>; the error names \<open>file_path\<close>. It is the yardstick that
  \<open>resolve_container_path\<close>, which is the module's code, is compared with.
\<close>

definition candidate_directories :: "string list" where
  "candidate_directories = [''/downloads'', ''/uploads'', ''/tmp'']"

definition spec_locate :: "filesystem \<Rightarrow> string \<Rightarrow> string \<Rightarrow> exn + string" where
  "spec_locate fs file_path name =
     (case List.find (os_path_exists fs) (map (\<lambda>d. d @ ''/'' @ name) candidate_directories) of
        None \<Rightarrow> Inl (file_not_found_in_container file_path)
      | Some hit \<Rightarrow> Inr hit)"

subsection \<open>A small installation\<close>

text \<open>
  A work item 7 with three relations, two of them attachments whose urls both contain
  \<^verbatim>\<open>abc-123\<close>; a client that knows this work item only; a container with the
  directories \<^verbatim>\<open>/downloads\<close>, \<^verbatim>\<open>/uploads\<close>, \<^verbatim>\<open>/tmp\<close> and a few files.
\<close>

definition demo_relations :: "work_item_relation list" where
  "demo_relations =
     [\<lparr>rel = ''System.LinkTypes.Hierarchy-Forward'',
       url = ''https://dev.azure.com/org/_apis/wit/workItems/abc-123'',
       attributes = Map.empty\<rparr>,
      \<lparr>rel = ''AttachedFile'',
       url = ''https://dev.azure.com/org/_apis/wit/attachments/abc-1234'',
       attributes = [''name'' \<mapsto> AStr ''report.pdf'']\<rparr>,
      \<lparr>rel = ''AttachedFile'',
       url = ''https://dev.azure.com/org/_apis/wit/attachments/abc-123'',
       attributes = [''name'' \<mapsto> AStr ''notes.txt'']\<rparr>]"

definition demo_client :: client where
  "demo_client =
     \<lparr>get_work_item = (\<lambda>i expand.
        if i = 7 then Inr (Some \<lparr>item_rev = 3, relations = Some demo_relations\<rparr>)
        else if i = 8 then Inr (Some \<lparr>item_rev = 1, relations = None\<rparr>)
        else Inl (OtherException ''TF401232: Work item does not exist'')),
      get_attachment_content = (\<lambda>a. Inr ([[1, 2, 3], [], [4, 5]], None)),
      create_attachment = (\<lambda>stream name upload_type.
        Inr \<lparr>ref_id = ''f00d'',
             ref_url = ''https://dev.azure.com/org/_apis/wit/attachments/f00d''\<rparr>),
      update_work_item = (\<lambda>document i bypass_rules.
        Inr \<lparr>item_rev = 4,
             relations = Some (demo_relations @ map patch_value document)\<rparr>)\<rparr>"

definition demo_fs :: filesystem where
  "demo_fs =
     \<lparr>nodes = [''/downloads'' \<mapsto> Dir, ''/uploads'' \<mapsto> Dir, ''/tmp'' \<mapsto> Dir,
               ''/uploads/notes.txt'' \<mapsto> File [7, 8],
               ''/etc/hosts'' \<mapsto> File [9]],
      io_error = (\<lambda>p. None),
      dir_size = 4096,
      cwd = ''/app''\<rparr>"

definition demo_platform :: platform where
  "demo_platform =
     \<lparr>get_work_item_client = Inr demo_client,
      mimetypes_guess_type = (\<lambda>name. if endswith name ''.txt'' then Some ''text/plain'' else None)\<rparr>"

text \<open>
  Two host paths for the same file: \<^verbatim>\<open>C:\docs\notes.txt\<close>, and
  \<^verbatim>\<open>C:\docs/notes.txt\<close> with a slash as its last separator.
\<close>

definition windows_notes_path :: string where
  "windows_notes_path = ''C:'' @ [backslash] @ ''docs'' @ [backslash] @ ''notes.txt''"

definition mixed_notes_path :: string where
  "mixed_notes_path = ''C:'' @ [backslash] @ ''docs/notes.txt''"

text \<open>A platform on which the client cannot be created, for a reason of its own.\<close>

definition broken_platform :: platform where
  "broken_platform =
     \<lparr>get_work_item_client = Inl (OtherException ''connection refused''),
      mimetypes_guess_type = (\<lambda>name. None)\<rparr>"

section \<open>Properties\<close>

subsection \<open>Strings and paths\<close>

lemma startswith_iff: "startswith s p \<longleftrightarrow> (\<exists>t. s = p @ t)"
  by (induction s p rule: startswith.induct) auto

lemma str_contains_iff: "str_contains sub s \<longleftrightarrow> (\<exists>pre suf. s = pre @ sub @ suf)"
proof (induction s)
  case Nil
  then show ?case by simp
next
  case (Cons c cs)
  have "(\<exists>pre suf. c # cs = pre @ sub @ suf) \<longleftrightarrow>
        (\<exists>suf. c # cs = sub @ suf) \<or> (\<exists>pre suf. cs = pre @ sub @ suf)"
  proof
    assume "\<exists>pre suf. c # cs = pre @ sub @ suf"
    then obtain pre suf where eq: "c # cs = pre @ sub @ suf" by blast
    show "(\<exists>suf. c # cs = sub @ suf) \<or> (\<exists>pre suf. cs = pre @ sub @ suf)"
    proof (cases pre)
      case Nil
      with eq show ?thesis by auto
    next
      case (Cons d ds)
      with eq have "cs = ds @ sub @ suf" by simp
      then show ?thesis by blast
    qed
  next
    assume "(\<exists>suf. c # cs = sub @ suf) \<or> (\<exists>pre suf. cs = pre @ sub @ suf)"
    then show "\<exists>pre suf. c # cs = pre @ sub @ suf"
    proof
      assume "\<exists>suf. c # cs = sub @ suf"
      then obtain suf where "c # cs = [] @ sub @ suf" by auto
      then show ?thesis by blast
    next
      assume "\<exists>pre suf. cs = pre @ sub @ suf"
      then obtain pre suf where "c # cs = (c # pre) @ sub @ suf" by auto
      then show ?thesis by blast
    qed
  qed
  with Cons show ?case by (simp add: startswith_iff)
qed

lemma str_contains_char: "str_contains [c] s \<longleftrightarrow> c \<in> set s"
  by (induction s) auto

subsection \<open>Attachment lookup\<close>

lemma find_attachment_relation_find:
  "find_attachment_relation aid rels =
     map_option attachment_info_of
       (List.find (\<lambda>r. rel r = ''AttachedFile'' \<and> (\<exists>pre suf. url r = pre @ aid @ suf)) rels)"
  unfolding str_contains_iff [symmetric]
  by (induction rels) simp_all

text \<open>
  C9. The lookup selects by substring: on a work item with relations, the relation
  taken is the first one in the list, in list order, whose \<^verbatim>\<open>rel\<close> is
  \<^verbatim>\<open>AttachedFile\<close> and whose url has the attachment id somewhere inside it (the url is
  some prefix, then the id, then some suffix); the function returns the information built
  from that relation, and raises "not found" exactly when no relation of the list is of
  this kind.
\<close>

theorem attachment_lookup_first_substring_match:
  assumes "get_work_item c wid (Some ''relations'') = Inr (Some wi)"
    and "relations wi = Some rels"
    and "rels \<noteq> []"
  shows "get_attachment_info_from_work_item wid aid c =
     (case List.find (\<lambda>r. rel r = ''AttachedFile'' \<and> (\<exists>pre suf. url r = pre @ aid @ suf)) rels of
        None \<Rightarrow>
          Inl (AzureDevOpsClientError
                 (''Error getting attachment information: Attachment '' @ aid
                  @ '' not found in work item '' @ str_int wid))
      | Some r \<Rightarrow>
          (case attachment_info_of r of
             Inl e \<Rightarrow>
               Inl (AzureDevOpsClientError
                      (''Error getting attachment information: '' @ str_exn e))
           | Inr info \<Rightarrow> Inr info))"
  using assms
  by (simp add: get_attachment_info_from_work_item_def get_attachment_info_body_def
      find_attachment_relation_find split: option.splits)

theorem attachment_lookup_first_substring_match_witness:
  "get_work_item demo_client 7 (Some ''relations'') =
     Inr (Some \<lparr>item_rev = 3, relations = Some demo_relations\<rparr>)
   \<and> demo_relations \<noteq> []
   \<and> get_attachment_info_from_work_item 7 ''abc-123'' demo_client =
       Inr \<lparr>info_name = ''report.pdf'',
            info_url = ''https://dev.azure.com/org/_apis/wit/attachments/abc-1234'',
            info_attributes = [''name'' \<mapsto> AStr ''report.pdf'']\<rparr>"
  using attachment_lookup_first_substring_match
          [folded str_contains_iff,
           where c = demo_client and wid = 7
             and wi = "\<lparr>item_rev = 3, relations = Some demo_relations\<rparr>"
             and rels = demo_relations and aid = "''abc-123''"]
  by (simp add: demo_client_def demo_relations_def attachment_info_of_def os_path_basename_def)

subsection \<open>Download from a work item without relations\<close>

lemma no_relations_no_attachment_info:
  assumes "get_work_item c wid (Some ''relations'') = Inr (Some wi)"
    and "relations wi = None \<or> relations wi = Some []"
  shows "get_attachment_info_from_work_item wid aid c =
     Inl (AzureDevOpsClientError
            (''Error getting attachment information: No attachments found in work item ''
             @ str_int wid))"
  using assms
  by (auto simp: get_attachment_info_from_work_item_def get_attachment_info_body_def)

text \<open>
  C5. When the work item that the client returns has no relation list or an empty one,
  the download fails: the implementation raises an \<^verbatim>\<open>AzureDevOpsClientError\<close> and the
  tool returns an error text, both of which end with "No attachments found in work item"
  and the id of the work item; the filesystem is left as it was.
\<close>

theorem download_without_relations_fails:
  assumes "get_work_item_client pf = Inr c"
    and "get_work_item c wid (Some ''relations'') = Inr (Some wi)"
    and "relations wi = None \<or> relations wi = Some []"
  shows "download_attachment_impl wid aid out c fs =
           (Inl (AzureDevOpsClientError
                  (''Error downloading attachment '' @ aid @ '' from work item '' @ str_int wid
                   @ '': Error getting attachment information: ''
                   @ ''No attachments found in work item '' @ str_int wid)), fs)
       \<and> download_work_item_attachment pf wid aid out fs =
           (''Error: Error downloading attachment '' @ aid @ '' from work item '' @ str_int wid
            @ '': Error getting attachment information: ''
            @ ''No attachments found in work item '' @ str_int wid, fs)"
  using assms(1) no_relations_no_attachment_info [OF assms(2,3), of aid]
  by (simp add: download_work_item_attachment_def download_and_format_def
      download_attachment_impl_def download_attachment_body_def)

theorem download_without_relations_fails_witness:
  "get_work_item_client demo_platform = Inr demo_client
   \<and> get_work_item demo_client 8 (Some ''relations'') =
       Inr (Some \<lparr>item_rev = 1, relations = None\<rparr>)
   \<and> download_work_item_attachment demo_platform 8 ''abc-123'' ''notes.txt'' demo_fs =
      (''Error: Error downloading attachment abc-123 from work item 8: ''
       @ ''Error getting attachment information: No attachments found in work item 8'',
       demo_fs)"
  using download_without_relations_fails
          [of demo_platform demo_client 8 "\<lparr>item_rev = 1, relations = None\<rparr>"
              "''abc-123''" "''notes.txt''" demo_fs]
  by (simp add: demo_platform_def demo_client_def str_int_def str_nat.simps)

subsection \<open>Attaching an uploaded file\<close>

lemma attach_impl_result:
  assumes "attach_file_to_work_item_impl wid aid name cm c = Inr r"
  shows "\<exists>updated.
           update_work_item c (attach_patch_document aid name cm) wid False = Inr updated
         \<and> r = \<lparr>at_work_item_id = wid, at_attachment_id = aid, at_attachment_name = name,
                 at_comment = comment_or_empty cm,
                 at_updated_work_item_rev = item_rev updated\<rparr>"
  using assms unfolding attach_file_to_work_item_impl_def
  by (auto split: sum.splits option.splits)

lemma upload_and_attach_steps:
  assumes "upload_and_attach pf wid fp fn cm fs = Inr response"
  shows "\<exists>c up r. get_work_item_client pf = Inr c
         \<and> upload_attachment_impl (mimetypes_guess_type pf) fp fn cm c fs = Inr up
         \<and> attach_file_to_work_item_impl wid (up_url up) (up_name up) cm c = Inr r"
proof (cases "get_work_item_client pf")
  case (Inl e)
  with assms show ?thesis by (simp add: upload_and_attach_def)
next
  case (Inr c)
  note client = this
  show ?thesis
  proof (cases "upload_attachment_impl (mimetypes_guess_type pf) fp fn cm c fs")
    case (Inl e)
    with assms client show ?thesis by (simp add: upload_and_attach_def)
  next
    case (Inr up)
    note uploaded = this
    show ?thesis
    proof (cases "attach_file_to_work_item_impl wid (up_url up) (up_name up) cm c")
      case (Inl e)
      with assms client uploaded show ?thesis by (simp add: upload_and_attach_def)
    next
      case (Inr r)
      with client uploaded show ?thesis by blast
    qed
  qed
qed

text \<open>
  C8. When the upload tool succeeds, its attach step has sent the client one patch
  document for the target work item, made of a single operation that adds to
  \<^verbatim>\<open>/relations/-\<close> a relation \<^verbatim>\<open>AttachedFile\<close> with the url and name of the uploaded
  attachment, and the result of the attach step carries the revision of the work item
  that the client returned for this update.
\<close>

theorem attach_step_patches_relations_and_returns_rev:
  assumes "upload_and_attach pf wid fp fn cm fs = Inr response"
  shows "\<exists>c up updated.
           get_work_item_client pf = Inr c
         \<and> upload_attachment_impl (mimetypes_guess_type pf) fp fn cm c fs = Inr up
         \<and> update_work_item c
              [\<lparr>op = ''add'', path = ''/relations/-'',
                patch_value =
                  \<lparr>rel = ''AttachedFile'', url = up_url up,
                   attributes =
                     [''name'' \<mapsto> AStr (up_name up),
                      ''comment'' \<mapsto> AStr (case cm of None \<Rightarrow> [] | Some t \<Rightarrow> t)]\<rparr>\<rparr>]
              wid False = Inr updated
         \<and> attach_file_to_work_item_impl wid (up_url up) (up_name up) cm c =
              Inr \<lparr>at_work_item_id = wid, at_attachment_id = up_url up,
                   at_attachment_name = up_name up,
                   at_comment = (case cm of None \<Rightarrow> [] | Some t \<Rightarrow> t),
                   at_updated_work_item_rev = item_rev updated\<rparr>"
proof -
  from upload_and_attach_steps [OF assms] obtain c up r where
    client: "get_work_item_client pf = Inr c"
    and uploaded: "upload_attachment_impl (mimetypes_guess_type pf) fp fn cm c fs = Inr up"
    and attached: "attach_file_to_work_item_impl wid (up_url up) (up_name up) cm c = Inr r"
    by blast
  from attach_impl_result [OF attached] obtain updated where
    patched: "update_work_item c (attach_patch_document (up_url up) (up_name up) cm) wid False
                = Inr updated"
    and r: "r = \<lparr>at_work_item_id = wid, at_attachment_id = up_url up,
                 at_attachment_name = up_name up, at_comment = comment_or_empty cm,
                 at_updated_work_item_rev = item_rev updated\<rparr>"
    by blast
  from patched have "update_work_item c
              [\<lparr>op = ''add'', path = ''/relations/-'',
                patch_value =
                  \<lparr>rel = ''AttachedFile'', url = up_url up,
                   attributes =
                     [''name'' \<mapsto> AStr (up_name up),
                      ''comment'' \<mapsto> AStr (case cm of None \<Rightarrow> [] | Some t \<Rightarrow> t)]\<rparr>\<rparr>]
              wid False = Inr updated"
    by (simp add: attach_patch_document_def comment_or_empty_def)
  moreover from attached r
  have "attach_file_to_work_item_impl wid (up_url up) (up_name up) cm c =
              Inr \<lparr>at_work_item_id = wid, at_attachment_id = up_url up,
                   at_attachment_name = up_name up,
                   at_comment = (case cm of None \<Rightarrow> [] | Some t \<Rightarrow> t),
                   at_updated_work_item_rev = item_rev updated\<rparr>"
    by (simp add: comment_or_empty_def)
  ultimately show ?thesis using client uploaded by blast
qed

theorem attach_step_patches_relations_and_returns_rev_witness:
  "upload_and_attach demo_platform 7 ''notes.txt'' None (Some ''see notes'') demo_fs =
     Inr (str_join newline
            [''# File Attached Successfully to Work Item 7'',
             ''Filename: notes.txt'',
             ''Size: 2 bytes'',
             ''Content Type: text/plain'',
             ''File location in container: /uploads/notes.txt'',
             ''Comment: see notes'',
             [],
             ''The file has been uploaded and attached to the work item.''])
   \<and> (\<exists>c up updated.
           get_work_item_client demo_platform = Inr c
         \<and> upload_attachment_impl (mimetypes_guess_type demo_platform) ''notes.txt'' None
              (Some ''see notes'') c demo_fs = Inr up
         \<and> update_work_item c
              [\<lparr>op = ''add'', path = ''/relations/-'',
                patch_value =
                  \<lparr>rel = ''AttachedFile'', url = up_url up,
                   attributes =
                     [''name'' \<mapsto> AStr (up_name up),
                      ''comment'' \<mapsto> AStr ''see notes'']\<rparr>\<rparr>]
              7 False = Inr updated
         \<and> attach_file_to_work_item_impl 7 (up_url up) (up_name up) (Some ''see notes'') c =
              Inr \<lparr>at_work_item_id = 7, at_attachment_id = up_url up,
                   at_attachment_name = up_name up,
                   at_comment = ''see notes'',
                   at_updated_work_item_rev = item_rev updated\<rparr>)"
proof -
  have run: "upload_and_attach demo_platform 7 ''notes.txt'' None (Some ''see notes'') demo_fs =
     Inr (str_join newline
            [''# File Attached Successfully to Work Item 7'',
             ''Filename: notes.txt'',
             ''Size: 2 bytes'',
             ''Content Type: text/plain'',
             ''File location in container: /uploads/notes.txt'',
             ''Comment: see notes'',
             [],
             ''The file has been uploaded and attached to the work item.''])"
    by code_simp
  show ?thesis
    using run attach_step_patches_relations_and_returns_rev [OF run] by simp
qed

subsection \<open>Every failure becomes a result text\<close>

lemma download_attachment_impl_raises_client_error:
  "fst (download_attachment_impl wid aid out c fs) = Inl e \<Longrightarrow> \<exists>m. e = AzureDevOpsClientError m"
  unfolding download_attachment_impl_def
  by (cases "download_attachment_body wid aid out c fs"; cases "fst (download_attachment_body wid aid out c fs)") auto

lemma upload_attachment_impl_raises_client_error:
  "upload_attachment_impl g fp fn cm c fs = Inl e \<Longrightarrow> \<exists>m. e = AzureDevOpsClientError m"
  unfolding upload_attachment_impl_def by (auto split: sum.splits)

lemma attach_file_to_work_item_impl_raises_client_error:
  "attach_file_to_work_item_impl wid aid name cm c = Inl e \<Longrightarrow> \<exists>m. e = AzureDevOpsClientError m"
  unfolding attach_file_to_work_item_impl_def by (auto split: sum.splits)

lemma download_and_format_other:
  assumes "fst (download_and_format pf wid aid out fs) = Inl (OtherException m)"
  shows "get_work_item_client pf = Inl (OtherException m)"
proof (cases "get_work_item_client pf")
  case (Inl e)
  with assms show ?thesis by (simp add: download_and_format_def)
next
  case (Inr c)
  obtain res fs' where run: "download_attachment_impl wid aid out c fs = (res, fs')"
    by (cases "download_attachment_impl wid aid out c fs")
  with assms Inr have "res = Inl (OtherException m)"
    by (cases res) (simp_all add: download_and_format_def)
  with run download_attachment_impl_raises_client_error[of wid aid out c fs "OtherException m"]
  show ?thesis by simp
qed

lemma upload_and_attach_other:
  assumes "upload_and_attach pf wid fp fn cm fs = Inl (OtherException m)"
  shows "get_work_item_client pf = Inl (OtherException m)"
proof (cases "get_work_item_client pf")
  case (Inl e)
  with assms show ?thesis by (simp add: upload_and_attach_def)
next
  case (Inr c)
  note client = this
  show ?thesis
  proof (cases "upload_attachment_impl (mimetypes_guess_type pf) fp fn cm c fs")
    case (Inl e)
    with assms client have "e = OtherException m" by (simp add: upload_and_attach_def)
    with Inl upload_attachment_impl_raises_client_error show ?thesis by blast
  next
    case (Inr up)
    note uploaded = this
    show ?thesis
    proof (cases "attach_file_to_work_item_impl wid (up_url up) (up_name up) cm c")
      case (Inl e)
      with assms client uploaded have "e = OtherException m" by (simp add: upload_and_attach_def)
      with Inl attach_file_to_work_item_impl_raises_client_error show ?thesis by blast
    next
      case (Inr r)
      with assms client uploaded show ?thesis by (simp add: upload_and_attach_def)
    qed
  qed
qed

text \<open>
  C4, as the module has it. A tool call fails when the body of its \<^verbatim>\<open>try\<close> block
  raises. The tool then returns a text. For an \<^verbatim>\<open>AzureDevOpsClientError\<close> the
  text is \<^verbatim>\<open>Error: \<close> followed by the message. For any other exception it is
  \<^verbatim>\<open>Error downloading attachment: \<close> (download) or
  \<^verbatim>\<open>Error uploading attachment: \<close> (upload) followed by the message, and such an
  exception can only come from \<^verbatim>\<open>get_work_item_client\<close>, because the download,
  upload and attach implementations raise nothing but \<^verbatim>\<open>AzureDevOpsClientError\<close>.
\<close>

theorem tool_failure_returns_error_text:
  "(fst (download_and_format pf wid aid out fs) = Inl e \<longrightarrow>
      fst (download_work_item_attachment pf wid aid out fs) =
        (case e of AzureDevOpsClientError m \<Rightarrow> ''Error: '' @ m
                 | OtherException m \<Rightarrow> ''Error downloading attachment: '' @ m)
      \<and> (\<forall>m. e = OtherException m \<longrightarrow> get_work_item_client pf = Inl e))
   \<and> (upload_and_attach pf wid' fp fn cm fs = Inl e' \<longrightarrow>
      upload_attachment_to_work_item pf wid' fp fn cm fs =
        (case e' of AzureDevOpsClientError m \<Rightarrow> ''Error: '' @ m
                  | OtherException m \<Rightarrow> ''Error uploading attachment: '' @ m)
      \<and> (\<forall>m. e' = OtherException m \<longrightarrow> get_work_item_client pf = Inl e'))"
proof (intro conjI impI allI)
  assume "fst (download_and_format pf wid aid out fs) = Inl e"
  then show "fst (download_work_item_attachment pf wid aid out fs) =
        (case e of AzureDevOpsClientError m \<Rightarrow> ''Error: '' @ m
                 | OtherException m \<Rightarrow> ''Error downloading attachment: '' @ m)"
    by (cases "download_and_format pf wid aid out fs"; cases e)
       (simp_all add: download_work_item_attachment_def)
next
  fix m assume "fst (download_and_format pf wid aid out fs) = Inl e" "e = OtherException m"
  then show "get_work_item_client pf = Inl e" using download_and_format_other by simp
next
  assume "upload_and_attach pf wid' fp fn cm fs = Inl e'"
  then show "upload_attachment_to_work_item pf wid' fp fn cm fs =
        (case e' of AzureDevOpsClientError m \<Rightarrow> ''Error: '' @ m
                  | OtherException m \<Rightarrow> ''Error uploading attachment: '' @ m)"
    by (cases e') (simp_all add: upload_attachment_to_work_item_def)
next
  fix m assume "upload_and_attach pf wid' fp fn cm fs = Inl e'" "e' = OtherException m"
  then show "get_work_item_client pf = Inl e'" using upload_and_attach_other by simp
qed

theorem tool_failure_returns_error_text_witness:
  "fst (download_and_format demo_platform 8 ''abc-123'' ''notes.txt'' demo_fs) =
     Inl (AzureDevOpsClientError
            (''Error downloading attachment abc-123 from work item 8: ''
             @ ''Error getting attachment information: No attachments found in work item 8''))
   \<and> fst (download_work_item_attachment demo_platform 8 ''abc-123'' ''notes.txt'' demo_fs) =
       ''Error: Error downloading attachment abc-123 from work item 8: ''
       @ ''Error getting attachment information: No attachments found in work item 8''
   \<and> upload_and_attach demo_platform 7 ''/downloads/missing.txt'' None None demo_fs =
       Inl (AzureDevOpsClientError
              (''Error uploading attachment /downloads/missing.txt: ''
               @ ''File not found: /downloads/missing.txt''))
   \<and> upload_attachment_to_work_item demo_platform 7 ''/downloads/missing.txt'' None None demo_fs =
       ''Error: Error uploading attachment /downloads/missing.txt: ''
       @ ''File not found: /downloads/missing.txt''"
proof -
  have download_fails:
    "fst (download_and_format demo_platform 8 ''abc-123'' ''notes.txt'' demo_fs) =
       Inl (AzureDevOpsClientError
              (''Error downloading attachment abc-123 from work item 8: ''
               @ ''Error getting attachment information: No attachments found in work item 8''))"
    by code_simp
  have upload_fails:
    "upload_and_attach demo_platform 7 ''/downloads/missing.txt'' None None demo_fs =
       Inl (AzureDevOpsClientError
              (''Error uploading attachment /downloads/missing.txt: ''
               @ ''File not found: /downloads/missing.txt''))"
    by code_simp
  show ?thesis
    using download_fails upload_fails
      tool_failure_returns_error_text
        [of demo_platform 8 "''abc-123''" "''notes.txt''" demo_fs _ 7
            "''/downloads/missing.txt''" None None]
    by simp
qed

text \<open>
  C4 as stated fails: when \<^verbatim>\<open>get_work_item_client\<close> raises an exception that is
  not an \<^verbatim>\<open>AzureDevOpsClientError\<close>, the text does not begin with \<^verbatim>\<open>Error:\<close>.
\<close>

theorem tool_error_prefix_counterexample:
  "fst (download_work_item_attachment broken_platform 7 ''abc-123'' ''notes.txt'' demo_fs)
     = ''Error downloading attachment: connection refused''
   \<and> \<not> startswith
        (fst (download_work_item_attachment broken_platform 7 ''abc-123'' ''notes.txt'' demo_fs))
        ''Error:''"
  by code_simp

subsection \<open>Splitting, file names and joined paths\<close>

lemma str_split_nonempty: "str_split c s \<noteq> []"
  by (induction s) (auto split: list.splits)

lemma str_split_no_sep: "c \<notin> set s \<Longrightarrow> str_split c s = [s]"
  by (induction s) auto

lemma str_split_append: "str_split c (a @ c # b) = str_split c a @ str_split c b"
  by (induction a) (auto split: list.splits simp: str_split_nonempty)

lemma takeWhile_rev_no_sep: "c \<notin> set s \<Longrightarrow> takeWhile (\<lambda>x. x \<noteq> c) (rev s) = rev s"
  by (auto simp: takeWhile_eq_all_conv)

lemma last_str_split: "last (str_split c s) = rev (takeWhile (\<lambda>x. x \<noteq> c) (rev s))"
proof (cases "c \<in> set s")
  case False
  then show ?thesis by (simp add: str_split_no_sep takeWhile_rev_no_sep)
next
  case True
  then obtain a b where s: "s = a @ c # b" and b: "c \<notin> set b"
    by (meson split_list_last)
  have "takeWhile (\<lambda>x. x \<noteq> c) (rev b @ c # rev a) = rev b"
    using b by (auto simp: takeWhile_tail)
  with s b show ?thesis
    by (simp add: str_split_append str_split_no_sep str_split_nonempty)
qed

lemma hd_str_split: "hd (str_split c s) = takeWhile (\<lambda>x. x \<noteq> c) s"
  by (induction s) (auto split: list.splits simp: str_split_nonempty)

lemma windows_filename_basename:
  "windows_filename p = os_path_basename (str_replace backslash (CHR ''/'') p)"
  by (simp add: windows_filename_def os_path_basename_def last_str_split)

text \<open>
  The Windows test in plain terms: the path has a backslash, or its second character is
  a colon and its first is not.
\<close>

lemma is_windows_path_iff:
  "is_windows_path p \<longleftrightarrow>
     backslash \<in> set p \<or> (\<exists>c rest. p = c # CHR '':'' # rest \<and> c \<noteq> CHR '':'')"
proof -
  have "CHR '':'' \<in> set p \<and> length (takeWhile (\<lambda>x. x \<noteq> CHR '':'') p) = 1
        \<longleftrightarrow> (\<exists>c rest. p = c # CHR '':'' # rest \<and> c \<noteq> CHR '':'')"
  proof (cases p)
    case Nil
    then show ?thesis by simp
  next
    case (Cons c cs)
    then show ?thesis by (cases cs) (auto split: if_splits)
  qed
  then show ?thesis
    by (simp add: is_windows_path_def str_contains_char hd_str_split)
qed

lemma os_path_basename_no_slash: "CHR ''/'' \<notin> set (os_path_basename p)"
  unfolding os_path_basename_def using set_takeWhileD by fastforce

lemma os_path_basename_suffix:
  "\<exists>pre. p = pre @ os_path_basename p \<and> (pre = [] \<or> last pre = CHR ''/'')"
proof -
  let ?P = "\<lambda>c. c \<noteq> CHR ''/''"
  have "rev p = takeWhile ?P (rev p) @ dropWhile ?P (rev p)" by simp
  then have eq: "p = rev (dropWhile ?P (rev p)) @ rev (takeWhile ?P (rev p))"
    by (metis rev_append rev_rev_ident)
  have "dropWhile ?P (rev p) = [] \<or> hd (dropWhile ?P (rev p)) = CHR ''/''"
    using hd_dropWhile[of ?P "rev p"] by auto
  then have "rev (dropWhile ?P (rev p)) = [] \<or> last (rev (dropWhile ?P (rev p))) = CHR ''/''"
    by (auto simp: last_rev)
  with eq show ?thesis unfolding os_path_basename_def by blast
qed

lemma os_path_join_filename:
  assumes "CHR ''/'' \<notin> set fn" and "d \<noteq> []" and "last d \<noteq> CHR ''/''"
  shows "os_path_join d fn = d @ ''/'' @ fn"
proof -
  from assms(1) have "\<not> startswith fn ''/''" by (cases fn) auto
  moreover from assms(2,3) have "\<not> endswith d ''/''"
    by (cases d rule: rev_cases) (auto simp: endswith_def)
  ultimately show ?thesis using assms(2) by (simp add: os_path_join_def)
qed

lemma os_path_basename_append: "CHR ''/'' \<notin> set fn \<Longrightarrow> os_path_basename (d @ ''/'' @ fn) = fn"
  by (simp add: os_path_basename_def takeWhile_tail takeWhile_rev_no_sep)

lemma os_path_dirname_downloads:
  "CHR ''/'' \<notin> set fn \<Longrightarrow> os_path_dirname (''/downloads/'' @ fn) = ''/downloads''"
proof -
  assume a: "CHR ''/'' \<notin> set fn"
  have "dropWhile (\<lambda>c. c \<noteq> CHR ''/'') (rev fn @ ''/sdaolnwod/'') = ''/sdaolnwod/''"
    using a by (simp add: dropWhile_append)
  then show ?thesis by (simp add: os_path_dirname_def)
qed

lemma os_path_normpath_downloads:
  assumes "CHR ''/'' \<notin> set fn" and "fn \<noteq> []" and "fn \<noteq> ''.''" and "fn \<noteq> ''..''"
  shows "os_path_normpath (''/downloads/'' @ fn) = ''/downloads/'' @ fn"
proof -
  have "str_split (CHR ''/'') (''/downloads/'' @ fn) = [[], ''downloads'', fn]"
    using str_split_append[of "CHR ''/''" "''/downloads''" fn] assms(1)
    by (simp add: str_split_no_sep)
  with assms show ?thesis by (simp add: os_path_normpath_def)
qed

subsection \<open>Download: the file written\<close>

lemma write_chunks_eq:
  "write_chunks chunks (written, n) = (written @ concat chunks, n + sum_list (map length chunks))"
  by (induction chunks arbitrary: written n) simp_all

lemma windows_filename_no_slash: "CHR ''/'' \<notin> set (windows_filename p)"
  by (simp add: windows_filename_basename os_path_basename_no_slash)

lemma download_filename_no_slash: "CHR ''/'' \<notin> set (download_filename p)"
  by (simp add: download_filename_def windows_filename_no_slash os_path_basename_no_slash)

lemma download_final_path:
  "os_path_join ''/downloads'' (download_filename p) = ''/downloads/'' @ download_filename p"
  using os_path_join_filename[OF download_filename_no_slash, of "''/downloads''" p] by simp

lemma open_wb_Inr:
  assumes "open_wb p fs = Inr fs2"
  shows "os_path_basename p \<notin> {[], ''.'', ''..''}"
    and "nodes fs (os_path_dirname p) = Some Dir"
    and "fs2 = fs\<lparr>nodes := (nodes fs)(p \<mapsto> File [])\<rparr>"
  using assms by (auto simp: open_wb_def split: option.splits if_splits)

lemma download_parent_dir:
  assumes "CHR ''/'' \<notin> set fn" and "fn \<notin> {[], ''.'', ''..''}"
  shows "os_path_dirname (os_path_abspath w (''/downloads/'' @ fn)) = ''/downloads''"
proof -
  from assms have "os_path_normpath (''/downloads/'' @ fn) = ''/downloads/'' @ fn"
    by (intro os_path_normpath_downloads) auto
  moreover have "os_path_abspath w (''/downloads/'' @ fn) = os_path_normpath (''/downloads/'' @ fn)"
    by (simp add: os_path_abspath_def)
  ultimately show ?thesis
    using os_path_dirname_downloads [OF assms(1)] by simp
qed


lemma download_attachment_impl_Inr:
  "download_attachment_impl wid aid out c fs = (Inr result, fs') \<longleftrightarrow>
   download_attachment_body wid aid out c fs = (Inr result, fs')"
  unfolding download_attachment_impl_def
  by (auto split: sum.splits prod.splits)

lemma windows_filename_suffix:
  "\<exists>pre. p = pre @ windows_filename p
         \<and> (pre = [] \<or> last pre = CHR ''/'' \<or> last pre = backslash)
         \<and> CHR ''/'' \<notin> set (windows_filename p)
         \<and> backslash \<notin> set (windows_filename p)"
proof -
  let ?f = "\<lambda>c. if c = backslash then CHR ''/'' else c"
  let ?q = "map ?f p"
  obtain pre' where q: "?q = pre' @ os_path_basename ?q"
    and pre': "pre' = [] \<or> last pre' = CHR ''/''"
    using os_path_basename_suffix by blast
  let ?n = "length pre'"
  have len: "?n \<le> length p"
    using arg_cong[OF q, of length] by simp
  have pre_eq: "map ?f (take ?n p) = pre'"
    using arg_cong[OF q, of "take ?n"] by (simp add: take_map)
  have suf_eq: "map ?f (drop ?n p) = os_path_basename ?q"
    using arg_cong[OF q, of "drop ?n"] by (simp add: drop_map)
  have noslash: "CHR ''/'' \<notin> set (map ?f (drop ?n p))"
    unfolding suf_eq by (rule os_path_basename_no_slash)
  have clean: "\<forall>c \<in> set (drop ?n p). c \<noteq> backslash \<and> c \<noteq> CHR ''/''"
  proof
    fix c assume "c \<in> set (drop ?n p)"
    then have "?f c \<in> set (map ?f (drop ?n p))" by simp
    with noslash have "?f c \<noteq> CHR ''/''" by metis
    then show "c \<noteq> backslash \<and> c \<noteq> CHR ''/''" by (auto split: if_splits)
  qed
  then have "map ?f (drop ?n p) = drop ?n p"
    by (intro map_idI) auto
  with suf_eq have wf: "windows_filename p = drop ?n p"
    by (simp add: windows_filename_basename str_replace_def)
  have "take ?n p = [] \<or> last (take ?n p) = CHR ''/'' \<or> last (take ?n p) = backslash"
  proof (cases "take ?n p = []")
    case True then show ?thesis by simp
  next
    case False
    with pre_eq have "pre' \<noteq> []" by auto
    with pre' have "last pre' = CHR ''/''" by simp
    moreover have "last (map ?f (take ?n p)) = ?f (last (take ?n p))"
      using False by (rule last_map)
    ultimately have "?f (last (take ?n p)) = CHR ''/''"
      using pre_eq by simp
    then show ?thesis by (auto split: if_splits)
  qed
  moreover have "p = take ?n p @ windows_filename p" by (simp add: wf)
  moreover from clean wf have "CHR ''/'' \<notin> set (windows_filename p)" "backslash \<notin> set (windows_filename p)"
    by auto
  ultimately show ?thesis by blast
qed


text \<open>
  C1. Take a work item whose relations contain an \<^verbatim>\<open>AttachedFile\<close> relation with
  the attachment id inside its url, the first such relation having a name that is a string
  (or none), a content generator that yields its chunks and ends, and a filesystem on which
  \<^verbatim>\<open>/downloads\<close> can be made and the save path opened for writing. Then the download
  returns a result; the file at the save path holds exactly the chunks in the order
  yielded, one after the other; and the size reported is the number of bytes written,
  which is the sum of the lengths of the chunks.
\<close>

theorem download_writes_stream_and_reports_size:
  assumes item: "get_work_item c wid (Some ''relations'') = Inr (Some wi)"
    and rels: "relations wi = Some rels"
    and found: "List.find (\<lambda>r. rel r = ''AttachedFile'' \<and> (\<exists>pre suf. url r = pre @ aid @ suf)) rels
                  = Some r"
    and name: "\<forall>i. attributes r ''name'' \<noteq> Some (AInt i)"
    and stream: "get_attachment_content c aid = Inr (chunks, None)"
    and dir: "os_makedirs ''/downloads'' fs = Inr fs1"
    and opened: "open_wb (''/downloads/'' @ download_filename out) fs1 = Inr fs2"
  shows "\<exists>result fs'.
           download_attachment_impl wid aid out c fs = (Inr result, fs')
         \<and> dl_saved_to result = ''/downloads/'' @ download_filename out
         \<and> nodes fs' (dl_saved_to result) = Some (File (concat chunks))
         \<and> dl_size result = length (concat chunks)
         \<and> dl_size result = sum_list (map length chunks)"
proof -
  let ?fn = "download_filename out"
  let ?final = "''/downloads/'' @ ?fn"
  from found have nonempty: "rels \<noteq> []" by auto
  from name obtain info where info: "attachment_info_of r = Inr info"
    by (cases "attributes r ''name''"; cases "the (attributes r ''name'')")
       (auto simp: attachment_info_of_def)
  from item rels nonempty found info
  have lookup: "get_attachment_info_from_work_item wid aid c = Inr info"
    by (simp add: get_attachment_info_from_work_item_def get_attachment_info_body_def
        find_attachment_relation_find)
  have noslash: "CHR ''/'' \<notin> set ?fn" by (rule download_filename_no_slash)
  have "os_path_basename ?final = ?fn"
    using os_path_basename_append[OF noslash, of "''/downloads''"] by simp
  with open_wb_Inr(1)[OF opened] have proper: "?fn \<notin> {[], ''.'', ''..''}" by simp
  have parent: "os_path_dirname (os_path_abspath (cwd fs) ?final) = ''/downloads''"
    by (rule download_parent_dir[OF noslash proper])
  define result where "result =
    \<lparr>dl_filename = info_name info,
     dl_size = sum_list (map length chunks),
     dl_content_type = (case info_attributes info ''contentType'' of
                          None \<Rightarrow> AStr ''application/octet-stream'' | Some v \<Rightarrow> v),
     dl_saved_to = ?final\<rparr>"
  define fs' where "fs' = fs2\<lparr>nodes := (nodes fs2)(?final \<mapsto> File (concat chunks))\<rparr>"
  have "download_attachment_body wid aid out c fs = (Inr result, fs')"
    unfolding download_attachment_body_def Let_def download_final_path parent
    by (simp only: lookup stream dir opened sum.case prod.case option.case write_chunks_eq
        result_def fs'_def append_Nil add_0)
  then have "download_attachment_impl wid aid out c fs = (Inr result, fs')"
    by (simp add: download_attachment_impl_Inr)
  moreover have "nodes fs' (dl_saved_to result) = Some (File (concat chunks))"
    by (simp add: result_def fs'_def)
  moreover have "dl_size result = length (concat chunks)"
    by (simp add: result_def length_concat)
  moreover have "dl_size result = sum_list (map length chunks)"
    by (simp add: result_def)
  moreover have "dl_saved_to result = ?final" by (simp add: result_def)
  ultimately show ?thesis by blast
qed

theorem download_writes_stream_and_reports_size_witness:
  "get_work_item demo_client 7 (Some ''relations'') =
     Inr (Some \<lparr>item_rev = 3, relations = Some demo_relations\<rparr>)
   \<and> get_attachment_content demo_client ''abc-123'' = Inr ([[1, 2, 3], [], [4, 5]], None)
   \<and> os_makedirs ''/downloads'' demo_fs = Inr demo_fs
   \<and> (\<exists>result fs'.
         download_attachment_impl 7 ''abc-123'' ''C:/Users/me/report.pdf'' demo_client demo_fs
           = (Inr result, fs')
       \<and> dl_saved_to result = ''/downloads/report.pdf''
       \<and> nodes fs' (dl_saved_to result) = Some (File [1, 2, 3, 4, 5])
       \<and> dl_size result = 5)"
proof -
  let ?r = "\<lparr>rel = ''AttachedFile'',
       url = ''https://dev.azure.com/org/_apis/wit/attachments/abc-1234'',
       attributes = [''name'' \<mapsto> AStr ''report.pdf'']\<rparr>"
  have item: "get_work_item demo_client 7 (Some ''relations'') =
     Inr (Some \<lparr>item_rev = 3, relations = Some demo_relations\<rparr>)"
    by (simp add: demo_client_def)
  have rels: "relations \<lparr>item_rev = 3, relations = Some demo_relations\<rparr> = Some demo_relations"
    by simp
  have found: "List.find (\<lambda>r. rel r = ''AttachedFile'' \<and> (\<exists>pre suf. url r = pre @ ''abc-123'' @ suf))
                 demo_relations = Some ?r"
    unfolding str_contains_iff [symmetric] by (simp add: demo_relations_def)
  have name: "\<forall>i. attributes ?r ''name'' \<noteq> Some (AInt i)" by simp
  have stream: "get_attachment_content demo_client ''abc-123'' = Inr ([[1, 2, 3], [], [4, 5]], None)"
    by (simp add: demo_client_def)
  have dir: "os_makedirs ''/downloads'' demo_fs = Inr demo_fs"
    by (simp add: os_makedirs_def demo_fs_def)
  have fn: "download_filename ''C:/Users/me/report.pdf'' = ''report.pdf''" by code_simp
  have opened: "open_wb (''/downloads/'' @ download_filename ''C:/Users/me/report.pdf'') demo_fs =
     Inr (demo_fs\<lparr>nodes := (nodes demo_fs)(''/downloads/report.pdf'' \<mapsto> File [])\<rparr>)"
    unfolding fn by (simp add: open_wb_def demo_fs_def os_path_basename_def os_path_dirname_def)
  show ?thesis
    using item stream dir fn download_writes_stream_and_reports_size [OF item rels found name stream dir opened]
    by (simp add: eval_nat_numeral)
qed



subsection \<open>Upload: locating the file\<close>

lemma first_existing_find: "first_existing fs locs = List.find (os_path_exists fs) locs"
  by (induction locs) simp_all

lemma relative_join:
  assumes "\<not> startswith p ''/''" and "d \<noteq> []" and "last d \<noteq> CHR ''/''"
  shows "os_path_join d p = d @ ''/'' @ p"
proof -
  from assms(2,3) have "\<not> endswith d ''/''"
    by (cases d rule: rev_cases) (auto simp: endswith_def)
  with assms(1,2) show ?thesis by (simp add: os_path_join_def)
qed

lemma probe_three:
  assumes "\<not> startswith name ''/''"
  shows "probe_locations fs p
           [os_path_join ''/downloads'' name, os_path_join ''/uploads'' name,
            os_path_join ''/tmp'' name] = spec_locate fs p name"
proof -
  have j: "os_path_join ''/downloads'' name = ''/downloads'' @ ''/'' @ name"
    "os_path_join ''/uploads'' name = ''/uploads'' @ ''/'' @ name"
    "os_path_join ''/tmp'' name = ''/tmp'' @ ''/'' @ name"
    using assms by (simp_all add: relative_join)
  show ?thesis unfolding j
    by (simp add: probe_locations_def spec_locate_def candidate_directories_def)
qed

lemma no_slash_not_absolute: "CHR ''/'' \<notin> set name \<Longrightarrow> \<not> startswith name ''/''"
  by (cases name) auto

lemma probe_four:
  assumes "\<not> startswith p ''/''"
  shows "probe_locations fs p
           [os_path_join ''/downloads'' p, os_path_join ''/uploads'' p,
            os_path_join ''/tmp'' p, p] =
         (case spec_locate fs p p of
            Inr hit \<Rightarrow> Inr hit
          | Inl e \<Rightarrow> if p \<noteq> [] \<and> os_path_exists fs p then Inr p
                     else Inl (file_not_found_in_container p))"
proof -
  have j: "os_path_join ''/downloads'' p = ''/downloads'' @ ''/'' @ p"
    "os_path_join ''/uploads'' p = ''/uploads'' @ ''/'' @ p"
    "os_path_join ''/tmp'' p = ''/tmp'' @ ''/'' @ p"
    using assms by (simp_all add: relative_join)
  show ?thesis unfolding j
    by (simp add: probe_locations_def spec_locate_def candidate_directories_def)
qed

lemma spec_locate_none:
  assumes "\<forall>d \<in> set candidate_directories. \<not> os_path_exists fs (d @ ''/'' @ name)"
  shows "spec_locate fs p name = Inl (file_not_found_in_container p)"
  using assms by (simp add: spec_locate_def candidate_directories_def)

lemma spec_locate_only:
  assumes "d \<in> set candidate_directories"
    and "os_path_exists fs (d @ ''/'' @ name)"
    and "\<forall>d' \<in> set candidate_directories. d' \<noteq> d \<longrightarrow> \<not> os_path_exists fs (d' @ ''/'' @ name)"
  shows "spec_locate fs p name = Inr (d @ ''/'' @ name)"
  using assms by (auto simp: spec_locate_def candidate_directories_def)

lemma windows_filename_bare:
  assumes "CHR ''/'' \<notin> set p" and "backslash \<notin> set p"
  shows "windows_filename p = p"
proof -
  from assms(2) have "str_replace backslash (CHR ''/'') p = p"
    unfolding str_replace_def by (intro map_idI) auto
  with assms(1) show ?thesis by (simp add: windows_filename_def str_split_no_sep)
qed

lemma resolve_windows:
  "is_windows_path p \<Longrightarrow> resolve_container_path fs p = spec_locate fs p (windows_filename p)"
  using probe_three[OF no_slash_not_absolute, of "windows_filename p" fs p]
  by (simp add: resolve_container_path_def Let_def windows_filename_basename os_path_basename_no_slash)

lemma resolve_relative:
  "\<not> is_windows_path p \<Longrightarrow> \<not> startswith p ''/'' \<Longrightarrow>
   resolve_container_path fs p =
     (case spec_locate fs p p of
        Inr hit \<Rightarrow> Inr hit
      | Inl e \<Rightarrow> if p \<noteq> [] \<and> os_path_exists fs p then Inr p
                 else Inl (file_not_found_in_container p))"
  by (simp add: resolve_container_path_def probe_four)

lemma upload_impl_unresolved:
  assumes "resolve_container_path fs p = Inl e"
  shows "upload_attachment_impl g p fn cm c fs =
           Inl (AzureDevOpsClientError (''Error uploading attachment '' @ p @ '': '' @ str_exn e))"
  using assms by (simp add: upload_attachment_impl_def upload_attachment_body_def)

lemma upload_tool_client_error:
  assumes "get_work_item_client pf = Inr c"
    and "upload_attachment_impl (mimetypes_guess_type pf) p fn cm c fs = Inl (AzureDevOpsClientError m)"
  shows "upload_attachment_to_work_item pf wid p fn cm fs = ''Error: '' @ m"
  using assms by (simp add: upload_attachment_to_work_item_def upload_and_attach_def)

lemma resolve_posix_elsewhere:
  assumes "\<not> is_windows_path p" and "startswith p ''/''" and "\<not> os_path_exists fs p"
    and "\<not> (\<exists>d \<in> set candidate_directories. \<exists>rest. p = d @ ''/'' @ rest)"
  shows "resolve_container_path fs p = spec_locate fs p (os_path_basename p)"
proof -
  from assms(4) have "\<not> (startswith p ''/downloads/'' \<or> startswith p ''/uploads/'' \<or> startswith p ''/tmp/'')"
    unfolding startswith_iff by (simp add: candidate_directories_def)
  with assms(1-3) show ?thesis
    using probe_three[OF no_slash_not_absolute[OF os_path_basename_no_slash], of fs p p]
    by (simp add: resolve_container_path_def Let_def del: startswith.simps)
qed

lemma resolve_posix_under_candidate:
  assumes "\<not> is_windows_path p" and "startswith p ''/''" and "\<not> os_path_exists fs p"
    and "\<exists>d \<in> set candidate_directories. \<exists>rest. p = d @ ''/'' @ rest"
  shows "resolve_container_path fs p = Inl (AzureDevOpsClientError (''File not found: '' @ p))"
proof -
  from assms(4) have "startswith p ''/downloads/'' \<or> startswith p ''/uploads/'' \<or> startswith p ''/tmp/''"
    unfolding startswith_iff by (simp add: candidate_directories_def)
  with assms(1-3) show ?thesis
    by (simp add: resolve_container_path_def Let_def del: startswith.simps)
qed

text \<open>
  C2, as the module has it. What the locator does depends on the form of the path.
  For a Windows path it probes \<^verbatim>\<open>/downloads\<close>, \<^verbatim>\<open>/uploads\<close>, \<^verbatim>\<open>/tmp\<close> in this
  order for the file name (what follows the last slash or backslash), returns the first
  location that exists and raises the not-found error that lists the three directories
  when none exists. An absolute POSIX path that exists is returned as it is, without any
  probe. An absolute POSIX path that does not exist is probed for by its basename in the
  same way when it is not under one of the three directories; when it is under one of
  them, the locator raises \<^verbatim>\<open>File not found\<close> with the path and probes nothing. A
  relative path (a bare file name included) is probed for as a whole under the three
  directories, then as given, and the not-found error is raised when none of the four
  exists.
\<close>

theorem upload_locator_by_path_form:
  "(is_windows_path p \<longrightarrow>
      resolve_container_path fs p = spec_locate fs p (windows_filename p))
   \<and> (\<not> is_windows_path p \<and> startswith p ''/'' \<and> os_path_exists fs p \<longrightarrow>
      resolve_container_path fs p = Inr p)
   \<and> (\<not> is_windows_path p \<and> startswith p ''/'' \<and> \<not> os_path_exists fs p
       \<and> \<not> (\<exists>d \<in> set candidate_directories. \<exists>rest. p = d @ ''/'' @ rest) \<longrightarrow>
      resolve_container_path fs p = spec_locate fs p (os_path_basename p))
   \<and> (\<not> is_windows_path p \<and> startswith p ''/'' \<and> \<not> os_path_exists fs p
       \<and> (\<exists>d \<in> set candidate_directories. \<exists>rest. p = d @ ''/'' @ rest) \<longrightarrow>
      resolve_container_path fs p = Inl (AzureDevOpsClientError (''File not found: '' @ p)))
   \<and> (\<not> is_windows_path p \<and> \<not> startswith p ''/'' \<longrightarrow>
      resolve_container_path fs p =
        (case spec_locate fs p p of
           Inr hit \<Rightarrow> Inr hit
         | Inl e \<Rightarrow> if p \<noteq> [] \<and> os_path_exists fs p then Inr p
                    else Inl (file_not_found_in_container p)))"
proof -
  have under: "(\<exists>d \<in> set candidate_directories. \<exists>rest. p = d @ ''/'' @ rest) \<longleftrightarrow>
        startswith p ''/downloads/'' \<or> startswith p ''/uploads/'' \<or> startswith p ''/tmp/''"
    unfolding startswith_iff by (simp add: candidate_directories_def)
  have win: "\<not> startswith (windows_filename p) ''/''"
    by (rule no_slash_not_absolute) (simp add: windows_filename_basename os_path_basename_no_slash)
  have base: "\<not> startswith (os_path_basename p) ''/''"
    by (rule no_slash_not_absolute) (rule os_path_basename_no_slash)
  show ?thesis
    unfolding under
    by (simp add: resolve_container_path_def Let_def probe_three[OF win] probe_three[OF base]
        probe_four del: startswith.simps)
qed

theorem upload_locator_by_path_form_witness:
  "is_windows_path windows_notes_path
   \<and> resolve_container_path demo_fs windows_notes_path = Inr ''/uploads/notes.txt''
   \<and> os_path_exists demo_fs ''/etc/hosts''
   \<and> resolve_container_path demo_fs ''/etc/hosts'' = Inr ''/etc/hosts''
   \<and> \<not> os_path_exists demo_fs ''/home/me/notes.txt''
   \<and> resolve_container_path demo_fs ''/home/me/notes.txt'' = Inr ''/uploads/notes.txt''
   \<and> \<not> os_path_exists demo_fs ''/downloads/notes.txt''
   \<and> resolve_container_path demo_fs ''/downloads/notes.txt'' =
       Inl (AzureDevOpsClientError ''File not found: /downloads/notes.txt'')
   \<and> \<not> startswith ''notes.txt'' ''/''
   \<and> resolve_container_path demo_fs ''notes.txt'' = Inr ''/uploads/notes.txt''"
proof -
  have win: "is_windows_path windows_notes_path" by code_simp
  have win_hit: "spec_locate demo_fs windows_notes_path (windows_filename windows_notes_path)
                   = Inr ''/uploads/notes.txt''" by code_simp
  have a: "resolve_container_path demo_fs windows_notes_path = Inr ''/uploads/notes.txt''"
    using win win_hit upload_locator_by_path_form [of windows_notes_path demo_fs] by simp
  have hosts: "\<not> is_windows_path ''/etc/hosts''" "os_path_exists demo_fs ''/etc/hosts''"
    by code_simp+
  have b: "resolve_container_path demo_fs ''/etc/hosts'' = Inr ''/etc/hosts''"
    using hosts upload_locator_by_path_form [of "''/etc/hosts''" demo_fs] by simp
  have home: "\<not> is_windows_path ''/home/me/notes.txt''"
    "\<not> os_path_exists demo_fs ''/home/me/notes.txt''"
    "spec_locate demo_fs ''/home/me/notes.txt'' (os_path_basename ''/home/me/notes.txt'')
       = Inr ''/uploads/notes.txt''"
    by code_simp+
  have home_elsewhere:
    "\<not> (\<exists>d \<in> set candidate_directories. \<exists>rest. ''/home/me/notes.txt'' = d @ ''/'' @ rest)"
    by (simp add: candidate_directories_def)
  have c: "resolve_container_path demo_fs ''/home/me/notes.txt'' = Inr ''/uploads/notes.txt''"
    using home home_elsewhere upload_locator_by_path_form [of "''/home/me/notes.txt''" demo_fs] by simp
  have down: "\<not> is_windows_path ''/downloads/notes.txt''"
    "\<not> os_path_exists demo_fs ''/downloads/notes.txt''"
    by code_simp+
  have down_under:
    "\<exists>d \<in> set candidate_directories. \<exists>rest. ''/downloads/notes.txt'' = d @ ''/'' @ rest"
    by (simp add: candidate_directories_def)
  have d: "resolve_container_path demo_fs ''/downloads/notes.txt'' =
       Inl (AzureDevOpsClientError ''File not found: /downloads/notes.txt'')"
    using down down_under upload_locator_by_path_form [of "''/downloads/notes.txt''" demo_fs] by simp
  have bare: "\<not> is_windows_path ''notes.txt''"
    "spec_locate demo_fs ''notes.txt'' ''notes.txt'' = Inr ''/uploads/notes.txt''"
    by code_simp+
  have e: "resolve_container_path demo_fs ''notes.txt'' = Inr ''/uploads/notes.txt''"
    using bare upload_locator_by_path_form [of "''notes.txt''" demo_fs] by simp
  show ?thesis using win a hosts b home c down d e by simp
qed

text \<open>
  C2 as stated fails for an absolute POSIX path that exists outside the three
  directories: no candidate exists, so the specification's locator fails, yet the module
  returns the path.
\<close>

theorem upload_locator_existing_posix_path_counterexample:
  "resolve_container_path demo_fs ''/etc/hosts'' = Inr ''/etc/hosts''
   \<and> spec_locate demo_fs ''/etc/hosts'' ''hosts'' = Inl (file_not_found_in_container ''/etc/hosts'')
   \<and> \<not> os_path_exists demo_fs ''/downloads/hosts''
   \<and> \<not> os_path_exists demo_fs ''/uploads/hosts''
   \<and> \<not> os_path_exists demo_fs ''/tmp/hosts''"
  by code_simp

text \<open>
  C7. A bare file name (no slash, no backslash) that exists in exactly one of
  \<^verbatim>\<open>/downloads\<close>, \<^verbatim>\<open>/uploads\<close>, \<^verbatim>\<open>/tmp\<close> is resolved to that directory joined with
  the name.
\<close>

theorem bare_filename_resolves_to_its_directory:
  assumes bare: "CHR ''/'' \<notin> set p" "backslash \<notin> set p"
    and dir: "d \<in> set candidate_directories"
    and present: "os_path_exists fs (d @ ''/'' @ p)"
    and absent: "\<forall>d' \<in> set candidate_directories. d' \<noteq> d \<longrightarrow> \<not> os_path_exists fs (d' @ ''/'' @ p)"
  shows "resolve_container_path fs p = Inr (d @ ''/'' @ p)"
proof (cases "is_windows_path p")
  case True
  then show ?thesis
    using spec_locate_only[OF dir present absent, of p]
    by (simp add: resolve_windows windows_filename_bare[OF bare])
next
  case False
  moreover from bare(1) have "\<not> startswith p ''/''" by (rule no_slash_not_absolute)
  ultimately show ?thesis
    using spec_locate_only[OF dir present absent, of p]
    by (simp add: resolve_relative)
qed

theorem bare_filename_resolves_to_its_directory_witness:
  "CHR ''/'' \<notin> set ''notes.txt'' \<and> backslash \<notin> set ''notes.txt''
   \<and> os_path_exists demo_fs ''/uploads/notes.txt''
   \<and> \<not> os_path_exists demo_fs ''/downloads/notes.txt''
   \<and> \<not> os_path_exists demo_fs ''/tmp/notes.txt''
   \<and> resolve_container_path demo_fs ''notes.txt'' = Inr ''/uploads/notes.txt''"
proof -
  have bare: "CHR ''/'' \<notin> set ''notes.txt''" "backslash \<notin> set ''notes.txt''"
    by (simp_all add: backslash_def)
  have dir: "''/uploads'' \<in> set candidate_directories"
    by (simp add: candidate_directories_def)
  have present: "os_path_exists demo_fs (''/uploads'' @ ''/'' @ ''notes.txt'')"
    by (simp add: os_path_exists_def demo_fs_def)
  have absent: "\<forall>d' \<in> set candidate_directories.
                  d' \<noteq> ''/uploads'' \<longrightarrow> \<not> os_path_exists demo_fs (d' @ ''/'' @ ''notes.txt'')"
    by (simp add: candidate_directories_def os_path_exists_def demo_fs_def)
  show ?thesis
    using bare present absent bare_filename_resolves_to_its_directory [OF bare dir present absent]
    by (simp add: candidate_directories_def)
qed

text \<open>
  C3, as the module has it. The upload fails with \<^verbatim>\<open>File not found\<close> followed by the
  list of the searched directories when the locator has probed and found nothing: for a
  Windows path whose file name is in none of the three directories; for an absolute POSIX
  path that does not exist, is not under one of the three directories and whose basename
  is in none of them; for a relative path that is in none of them and does not exist as
  given. For an absolute POSIX path under one of the three directories that does not
  exist, the upload fails with \<^verbatim>\<open>File not found\<close> and the path, without the list. The
  tool returns the message after \<^verbatim>\<open>Error: \<close>.
\<close>

theorem upload_of_unlocated_file_fails:
  assumes client: "get_work_item_client pf = Inr c"
  shows "((is_windows_path p
           \<and> (\<forall>d \<in> set candidate_directories. \<not> os_path_exists fs (d @ ''/'' @ windows_filename p)))
        \<or> (\<not> is_windows_path p \<and> startswith p ''/'' \<and> \<not> os_path_exists fs p
           \<and> \<not> (\<exists>d \<in> set candidate_directories. \<exists>rest. p = d @ ''/'' @ rest)
           \<and> (\<forall>d \<in> set candidate_directories. \<not> os_path_exists fs (d @ ''/'' @ os_path_basename p)))
        \<or> (\<not> is_windows_path p \<and> \<not> startswith p ''/'' \<and> \<not> os_path_exists fs p
           \<and> (\<forall>d \<in> set candidate_directories. \<not> os_path_exists fs (d @ ''/'' @ p)))
       \<longrightarrow>
         upload_attachment_impl (mimetypes_guess_type pf) p fn cm c fs =
           Inl (AzureDevOpsClientError
                  (''Error uploading attachment '' @ p @ '': File not found: '' @ p
                   @ ''. Please ensure the file is available in the container in one of ''
                   @ ''these directories: /downloads, /uploads, or /tmp.''))
       \<and> upload_attachment_to_work_item pf wid p fn cm fs =
           ''Error: Error uploading attachment '' @ p @ '': File not found: '' @ p
           @ ''. Please ensure the file is available in the container in one of ''
           @ ''these directories: /downloads, /uploads, or /tmp.'')
     \<and> (\<not> is_windows_path p \<and> startswith p ''/'' \<and> \<not> os_path_exists fs p
        \<and> (\<exists>d \<in> set candidate_directories. \<exists>rest. p = d @ ''/'' @ rest)
       \<longrightarrow>
         upload_attachment_impl (mimetypes_guess_type pf) p fn cm c fs =
           Inl (AzureDevOpsClientError
                  (''Error uploading attachment '' @ p @ '': File not found: '' @ p))
       \<and> upload_attachment_to_work_item pf wid p fn cm fs =
           ''Error: Error uploading attachment '' @ p @ '': File not found: '' @ p)"
proof (intro conjI impI)
  assume cases: "(is_windows_path p
           \<and> (\<forall>d \<in> set candidate_directories. \<not> os_path_exists fs (d @ ''/'' @ windows_filename p)))
        \<or> (\<not> is_windows_path p \<and> startswith p ''/'' \<and> \<not> os_path_exists fs p
           \<and> \<not> (\<exists>d \<in> set candidate_directories. \<exists>rest. p = d @ ''/'' @ rest)
           \<and> (\<forall>d \<in> set candidate_directories. \<not> os_path_exists fs (d @ ''/'' @ os_path_basename p)))
        \<or> (\<not> is_windows_path p \<and> \<not> startswith p ''/'' \<and> \<not> os_path_exists fs p
           \<and> (\<forall>d \<in> set candidate_directories. \<not> os_path_exists fs (d @ ''/'' @ p)))"
  have unresolved: "resolve_container_path fs p = Inl (file_not_found_in_container p)"
    using cases
  proof (elim disjE conjE)
    assume "is_windows_path p"
      and "\<forall>d \<in> set candidate_directories. \<not> os_path_exists fs (d @ ''/'' @ windows_filename p)"
    then show ?thesis by (simp add: resolve_windows spec_locate_none)
  next
    assume "\<not> is_windows_path p" "startswith p ''/''" "\<not> os_path_exists fs p"
      "\<not> (\<exists>d \<in> set candidate_directories. \<exists>rest. p = d @ ''/'' @ rest)"
      and "\<forall>d \<in> set candidate_directories. \<not> os_path_exists fs (d @ ''/'' @ os_path_basename p)"
    then show ?thesis by (simp add: resolve_posix_elsewhere spec_locate_none)
  next
    assume "\<not> is_windows_path p" "\<not> startswith p ''/''" "\<not> os_path_exists fs p"
      and "\<forall>d \<in> set candidate_directories. \<not> os_path_exists fs (d @ ''/'' @ p)"
    then show ?thesis by (simp add: resolve_relative spec_locate_none)
  qed
  have impl: "upload_attachment_impl (mimetypes_guess_type pf) p fn cm c fs =
           Inl (AzureDevOpsClientError
                  (''Error uploading attachment '' @ p @ '': File not found: '' @ p
                   @ ''. Please ensure the file is available in the container in one of ''
                   @ ''these directories: /downloads, /uploads, or /tmp.''))"
    using upload_impl_unresolved[OF unresolved, of "mimetypes_guess_type pf" fn cm c]
    by (simp add: file_not_found_in_container_def)
  show "upload_attachment_impl (mimetypes_guess_type pf) p fn cm c fs =
           Inl (AzureDevOpsClientError
                  (''Error uploading attachment '' @ p @ '': File not found: '' @ p
                   @ ''. Please ensure the file is available in the container in one of ''
                   @ ''these directories: /downloads, /uploads, or /tmp.''))"
    by (rule impl)
  show "upload_attachment_to_work_item pf wid p fn cm fs =
           ''Error: Error uploading attachment '' @ p @ '': File not found: '' @ p
           @ ''. Please ensure the file is available in the container in one of ''
           @ ''these directories: /downloads, /uploads, or /tmp.''"
    using upload_tool_client_error[OF client impl, of wid] by simp
next
  assume under: "\<not> is_windows_path p \<and> startswith p ''/'' \<and> \<not> os_path_exists fs p
        \<and> (\<exists>d \<in> set candidate_directories. \<exists>rest. p = d @ ''/'' @ rest)"
  then have unresolved: "resolve_container_path fs p = Inl (AzureDevOpsClientError (''File not found: '' @ p))"
    by (simp add: resolve_posix_under_candidate)
  have impl: "upload_attachment_impl (mimetypes_guess_type pf) p fn cm c fs =
           Inl (AzureDevOpsClientError
                  (''Error uploading attachment '' @ p @ '': File not found: '' @ p))"
    using upload_impl_unresolved[OF unresolved, of "mimetypes_guess_type pf" fn cm c] by simp
  show "upload_attachment_impl (mimetypes_guess_type pf) p fn cm c fs =
           Inl (AzureDevOpsClientError
                  (''Error uploading attachment '' @ p @ '': File not found: '' @ p))"
    by (rule impl)
  show "upload_attachment_to_work_item pf wid p fn cm fs =
           ''Error: Error uploading attachment '' @ p @ '': File not found: '' @ p"
    using upload_tool_client_error[OF client impl, of wid] by simp
qed

theorem upload_of_unlocated_file_fails_witness:
  "get_work_item_client demo_platform = Inr demo_client
   \<and> is_windows_path ''C:/docs/missing.txt''
   \<and> upload_attachment_to_work_item demo_platform 7 ''C:/docs/missing.txt'' None None demo_fs =
       ''Error: Error uploading attachment C:/docs/missing.txt: File not found: ''
       @ ''C:/docs/missing.txt. Please ensure the file is available in the container ''
       @ ''in one of these directories: /downloads, /uploads, or /tmp.''
   \<and> \<not> os_path_exists demo_fs ''/tmp/missing.txt''
   \<and> upload_attachment_to_work_item demo_platform 7 ''/tmp/missing.txt'' None None demo_fs =
       ''Error: Error uploading attachment /tmp/missing.txt: File not found: /tmp/missing.txt''"
proof -
  have client: "get_work_item_client demo_platform = Inr demo_client"
    by (simp add: demo_platform_def)
  have win: "is_windows_path ''C:/docs/missing.txt''"
    "windows_filename ''C:/docs/missing.txt'' = ''missing.txt''"
    by code_simp+
  have missing: "\<forall>d \<in> set candidate_directories.
                   \<not> os_path_exists demo_fs (d @ ''/'' @ ''missing.txt'')"
    by (simp add: candidate_directories_def os_path_exists_def demo_fs_def)
  have a: "upload_attachment_to_work_item demo_platform 7 ''C:/docs/missing.txt'' None None demo_fs =
       ''Error: Error uploading attachment C:/docs/missing.txt: File not found: ''
       @ ''C:/docs/missing.txt. Please ensure the file is available in the container ''
       @ ''in one of these directories: /downloads, /uploads, or /tmp.''"
    using win missing upload_of_unlocated_file_fails [OF client, of "''C:/docs/missing.txt''" demo_fs None None 7]
    by simp
  have tmp: "\<not> is_windows_path ''/tmp/missing.txt''"
    "\<not> os_path_exists demo_fs ''/tmp/missing.txt''"
    by code_simp+
  have tmp_under:
    "\<exists>d \<in> set candidate_directories. \<exists>rest. ''/tmp/missing.txt'' = d @ ''/'' @ rest"
    by (simp add: candidate_directories_def)
  have b: "upload_attachment_to_work_item demo_platform 7 ''/tmp/missing.txt'' None None demo_fs =
       ''Error: Error uploading attachment /tmp/missing.txt: File not found: /tmp/missing.txt''"
    using tmp tmp_under upload_of_unlocated_file_fails [OF client, of "''/tmp/missing.txt''" demo_fs None None 7]
    by simp
  show ?thesis using client win a tmp b by simp
qed

text \<open>
  C3 as stated fails: a file outside the three directories, given by an absolute POSIX
  path that exists, is in none of the candidate directories and is uploaded all the same.
\<close>

theorem upload_outside_candidates_succeeds_counterexample:
  "\<not> os_path_exists demo_fs ''/downloads/hosts''
   \<and> \<not> os_path_exists demo_fs ''/uploads/hosts''
   \<and> \<not> os_path_exists demo_fs ''/tmp/hosts''
   \<and> upload_attachment_impl (mimetypes_guess_type demo_platform) ''/etc/hosts'' None None
        demo_client demo_fs =
       Inr \<lparr>up_id = ''f00d'',
            up_url = ''https://dev.azure.com/org/_apis/wit/attachments/f00d'',
            up_name = ''hosts'', up_size = 1,
            up_content_type = ''application/octet-stream'',
            up_original_path = ''/etc/hosts'',
            up_container_path = ''/etc/hosts'', up_comment = None\<rparr>"
  by code_simp

subsection \<open>Upload: the default attachment name\<close>

lemma upload_stream_attempts_created:
  assumes "upload_stream_attempts c fs container name = Inr attachment"
  shows "\<exists>stream. create_attachment c stream name ''simple'' = Inr attachment"
  using assms unfolding upload_stream_attempts_def
  by (auto split: sum.splits)

lemma upload_attachment_impl_Inr:
  assumes "upload_attachment_impl g fp fn cm c fs = Inr up"
  shows "\<exists>container attachment.
           resolve_container_path fs fp = Inr container
         \<and> upload_stream_attempts c fs container (up_name up) = Inr attachment
         \<and> up_name up = (case fn of None \<Rightarrow> os_path_basename fp
                          | Some n \<Rightarrow> if n = [] then os_path_basename fp else n)
         \<and> up_container_path up = container
         \<and> up_id up = ref_id attachment \<and> up_url up = ref_url attachment"
  using assms unfolding upload_attachment_impl_def upload_attachment_body_def Let_def
  by (auto split: sum.splits)

lemma spec_locate_Inr:
  assumes "spec_locate fs p name = Inr hit"
  shows "\<exists>d \<in> set candidate_directories. hit = d @ ''/'' @ name"
proof -
  from assms obtain h where "List.find (os_path_exists fs) (map (\<lambda>d. d @ ''/'' @ name) candidate_directories) = Some h"
    and "hit = h"
    by (auto simp: spec_locate_def split: option.splits)
  then have "hit \<in> set (map (\<lambda>d. d @ ''/'' @ name) candidate_directories)"
    by (auto simp: find_Some_iff)
  then show ?thesis by auto
qed

text \<open>
  C10, as the module has it. When \<^verbatim>\<open>file_name\<close> is omitted (or empty) and the upload
  succeeds, the name sent to \<^verbatim>\<open>create_attachment\<close> and reported in the result is
  \<^verbatim>\<open>os.path.basename\<close> of the path as the user gave it: what follows its last slash.
  So a path without any slash is the name as a whole, and for a Windows path whose only
  separators are backslashes the name is the entire path string, which differs from the
  basename of the resolved container path. A Windows path that also has a slash loses
  what precedes its last slash.
\<close>

theorem upload_default_name_is_basename_of_given_path:
  assumes run: "upload_attachment_impl g fp fn cm c fs = Inr up"
    and omitted: "fn = None \<or> fn = Some []"
  shows "up_name up = os_path_basename fp
       \<and> (\<exists>stream. create_attachment c stream (os_path_basename fp) ''simple''
                      = Inr \<lparr>ref_id = up_id up, ref_url = up_url up\<rparr>)
       \<and> (\<exists>pre. fp = pre @ up_name up \<and> (pre = [] \<or> last pre = CHR ''/''))
       \<and> (CHR ''/'' \<notin> set fp \<longrightarrow> up_name up = fp)
       \<and> (backslash \<in> set fp \<and> CHR ''/'' \<notin> set fp \<longrightarrow>
            up_name up \<noteq> os_path_basename (up_container_path up))"
proof -
  from upload_attachment_impl_Inr[OF run] obtain container attachment where
    resolved: "resolve_container_path fs fp = Inr container"
    and sent: "upload_stream_attempts c fs container (up_name up) = Inr attachment"
    and name: "up_name up = (case fn of None \<Rightarrow> os_path_basename fp
                          | Some n \<Rightarrow> if n = [] then os_path_basename fp else n)"
    and container: "up_container_path up = container"
    and ids: "up_id up = ref_id attachment" "up_url up = ref_url attachment"
    by blast
  from name omitted have base: "up_name up = os_path_basename fp" by auto
  from upload_stream_attempts_created[OF sent] obtain stream where
    call: "create_attachment c stream (up_name up) ''simple'' = Inr attachment" by blast
  have reference: "\<lparr>ref_id = up_id up, ref_url = up_url up\<rparr> = attachment"
    using ids by (cases attachment) simp
  from call have "create_attachment c stream (os_path_basename fp) ''simple''
                      = Inr \<lparr>ref_id = up_id up, ref_url = up_url up\<rparr>"
    by (simp only: base reference)
  then have created: "\<exists>stream. create_attachment c stream (os_path_basename fp) ''simple''
                      = Inr \<lparr>ref_id = up_id up, ref_url = up_url up\<rparr>"
    by blast
  from os_path_basename_suffix[of fp] base
  have suffix: "\<exists>pre. fp = pre @ up_name up \<and> (pre = [] \<or> last pre = CHR ''/'')" by simp
  have whole: "CHR ''/'' \<notin> set fp \<longrightarrow> up_name up = fp"
    by (simp add: base os_path_basename_def takeWhile_rev_no_sep)
  have differs: "backslash \<in> set fp \<and> CHR ''/'' \<notin> set fp \<longrightarrow>
            up_name up \<noteq> os_path_basename (up_container_path up)"
  proof
    assume a: "backslash \<in> set fp \<and> CHR ''/'' \<notin> set fp"
    then have win: "is_windows_path fp" by (simp add: is_windows_path_def str_contains_char)
    with resolved have "spec_locate fs fp (windows_filename fp) = Inr container"
      by (simp add: resolve_windows)
    from spec_locate_Inr[OF this] obtain d where "container = d @ ''/'' @ windows_filename fp"
      by blast
    moreover have "CHR ''/'' \<notin> set (windows_filename fp)" by (rule windows_filename_no_slash)
    ultimately have "os_path_basename container = windows_filename fp"
      using os_path_basename_append [of "windows_filename fp" d] by simp
    moreover have "backslash \<notin> set (windows_filename fp)"
      using windows_filename_suffix[of fp] by blast
    moreover from a whole have "backslash \<in> set (up_name up)" by simp
    ultimately show "up_name up \<noteq> os_path_basename (up_container_path up)"
      using container by metis
  qed
  from base created suffix whole differs show ?thesis by blast
qed

theorem upload_default_name_is_basename_of_given_path_witness:
  "upload_attachment_impl (mimetypes_guess_type demo_platform) windows_notes_path None None
        demo_client demo_fs =
     Inr \<lparr>up_id = ''f00d'',
          up_url = ''https://dev.azure.com/org/_apis/wit/attachments/f00d'',
          up_name = windows_notes_path, up_size = 2,
          up_content_type = ''text/plain'',
          up_original_path = windows_notes_path,
          up_container_path = ''/uploads/notes.txt'', up_comment = None\<rparr>
   \<and> os_path_basename windows_notes_path = windows_notes_path
   \<and> windows_notes_path \<noteq> os_path_basename ''/uploads/notes.txt''
   \<and> (\<exists>stream. create_attachment demo_client stream (os_path_basename windows_notes_path)
                    ''simple''
          = Inr \<lparr>ref_id = ''f00d'',
                 ref_url = ''https://dev.azure.com/org/_apis/wit/attachments/f00d''\<rparr>)"
proof -
  have run: "upload_attachment_impl (mimetypes_guess_type demo_platform) windows_notes_path
        None None demo_client demo_fs =
     Inr \<lparr>up_id = ''f00d'',
          up_url = ''https://dev.azure.com/org/_apis/wit/attachments/f00d'',
          up_name = windows_notes_path, up_size = 2,
          up_content_type = ''text/plain'',
          up_original_path = windows_notes_path,
          up_container_path = ''/uploads/notes.txt'', up_comment = None\<rparr>"
    by code_simp
  have shape: "backslash \<in> set windows_notes_path" "CHR ''/'' \<notin> set windows_notes_path"
    by code_simp+
  show ?thesis
    using run shape upload_default_name_is_basename_of_given_path [OF run] by auto
qed

text \<open>
  C10 as stated fails for a Windows path that contains a slash after its backslashes: the
  name is not the entire path string.
\<close>

theorem upload_default_name_mixed_separators_counterexample:
  "backslash \<in> set mixed_notes_path
   \<and> is_windows_path mixed_notes_path
   \<and> upload_attachment_impl (mimetypes_guess_type demo_platform) mixed_notes_path None None
        demo_client demo_fs =
       Inr \<lparr>up_id = ''f00d'',
            up_url = ''https://dev.azure.com/org/_apis/wit/attachments/f00d'',
            up_name = ''notes.txt'', up_size = 2,
            up_content_type = ''text/plain'',
            up_original_path = mixed_notes_path,
            up_container_path = ''/uploads/notes.txt'', up_comment = None\<rparr>
   \<and> ''notes.txt'' \<noteq> mixed_notes_path"
  by code_simp

end
